theory Spec2Isabelle
  imports Main "HOL-Library.List_Lexorder" "HOL-Library.Char_ord"
begin

section \<open>Strings and numbers as the JavaScript sources use them\<close>

text \<open>
  Dates (\<open>YYYY-MM-DD\<close>) and times of day (\<open>HH:MM\<close>) are plain strings in the sources and
  are compared with the string operators \<open><\<close>, \<open><=\<close>, which order strings
  lexicographically by character code. The list order of \<open>List_Lexorder\<close> over the character
  order of \<open>Char_ord\<close> is that order.
\<close>

definition digitChar :: "nat \<Rightarrow> char" where
  "digitChar n = ''0123456789'' ! n"

definition digitVal :: "char \<Rightarrow> nat option" where
  "digitVal c = (let n = (of_char c :: nat) in if 48 \<le> n \<and> n \<le> 57 then Some (n - 48) else None)"

text \<open>\<open>Number.prototype.toString\<close> on a non-negative integer: its decimal digits.\<close>

fun toString :: "nat \<Rightarrow> string" where
  "toString n = (if n < 10 then [digitChar n] else toString (n div 10) @ [digitChar (n mod 10)])"

declare toString.simps [simp del]

text \<open>\<open>String.prototype.padStart(n, '0')\<close>.\<close>

definition padStart :: "nat \<Rightarrow> char \<Rightarrow> string \<Rightarrow> string" where
  "padStart n c s = replicate (n - length s) c @ s"

text \<open>
  \<open>Number(s)\<close> on a string of decimal digits; the empty string converts to 0. Every other
  string is treated as \<open>NaN\<close> (\<open>None\<close>): the time format of the schemas admits digits only.
\<close>

fun digitsValue :: "nat \<Rightarrow> string \<Rightarrow> nat option" where
  "digitsValue acc [] = Some acc"
| "digitsValue acc (c # cs) =
     (case digitVal c of None \<Rightarrow> None | Some v \<Rightarrow> digitsValue (acc * 10 + v) cs)"

definition Number :: "string \<Rightarrow> nat option" where
  "Number s = digitsValue 0 s"

text \<open>\<open>String.prototype.split(sep)\<close> with a one-character separator.\<close>

fun split :: "char \<Rightarrow> string \<Rightarrow> string list" where
  "split sep [] = [[]]"
| "split sep (c # cs) =
     (if c = sep then [] # split sep cs
      else (case split sep cs of [] \<Rightarrow> [[c]] | p # ps \<Rightarrow> (c # p) # ps))"

text \<open>
  The recurring \<open>t.split(':').map(Number)\<close> followed by \<open>p[0] * 60 + p[1]\<close>. A missing
  second component or a non-numeric one makes the sum \<open>NaN\<close>, here \<open>None\<close>.
\<close>

definition toMinutes :: "string \<Rightarrow> nat option" where
  "toMinutes t =
     (case map Number (split CHR '':'' t) of
        Some h # Some m # _ \<Rightarrow> Some (h * 60 + m)
      | _ \<Rightarrow> None)"

text \<open>\<open>String.prototype.trim\<close>, over the white space of the 8-bit character set.\<close>

definition isSpace :: "char \<Rightarrow> bool" where
  "isSpace c = ((of_char c :: nat) \<in> {9, 10, 11, 12, 13, 32, 160})"

definition trim :: "string \<Rightarrow> string" where
  "trim s = rev (dropWhile isSpace (rev (dropWhile isSpace s)))"

text \<open>\<open>String.prototype.includes\<close>.\<close>

fun startsWith :: "string \<Rightarrow> string \<Rightarrow> bool" where
  "startsWith s [] = True"
| "startsWith [] (p # ps) = False"
| "startsWith (c # cs) (p # ps) = (c = p \<and> startsWith cs ps)"

fun includesStr :: "string \<Rightarrow> string \<Rightarrow> bool" where
  "includesStr [] p = (p = [])"
| "includesStr (c # cs) p = (startsWith (c # cs) p \<or> includesStr cs p)"

definition isDigit :: "char \<Rightarrow> bool" where
  "isDigit c = (digitVal c \<noteq> None)"

text \<open>The schema pattern \<open>/^\d{4}-\d{2}-\d{2}$/\<close> of a date.\<close>

fun matchesDate :: "string \<Rightarrow> bool" where
  "matchesDate [y1, y2, y3, y4, s1, m1, m2, s2, d1, d2] =
     (isDigit y1 \<and> isDigit y2 \<and> isDigit y3 \<and> isDigit y4 \<and> s1 = CHR ''-'' \<and>
      isDigit m1 \<and> isDigit m2 \<and> s2 = CHR ''-'' \<and> isDigit d1 \<and> isDigit d2)"
| "matchesDate _ = False"

text \<open>The schema pattern \<open>/^([0-1]?[0-9]|2[0-3]):[0-5][0-9]$/\<close> of a time of day.\<close>

fun matchesTime :: "string \<Rightarrow> bool" where
  "matchesTime [h, c, m1, m2] =
     (isDigit h \<and> c = CHR '':'' \<and> m1 \<in> set ''012345'' \<and> isDigit m2)"
| "matchesTime [h1, h2, c, m1, m2] =
     (((h1 \<in> set ''01'' \<and> isDigit h2) \<or> (h1 = CHR ''2'' \<and> h2 \<in> set ''0123'')) \<and>
      c = CHR '':'' \<and> m1 \<in> set ''012345'' \<and> isDigit m2)"
| "matchesTime _ = False"

text \<open>The schema pattern \<open>/^[\+]?[1-9][\d]{0,15}$/\<close> of a phone number.\<close>

definition matchesPhone :: "string \<Rightarrow> bool" where
  "matchesPhone p =
     (let q = (case p of c # cs \<Rightarrow> (if c = CHR ''+'' then cs else p) | [] \<Rightarrow> p)
      in case q of
           [] \<Rightarrow> False
         | c # cs \<Rightarrow> c \<in> set ''123456789'' \<and> list_all isDigit cs \<and> length cs \<le> 15)"

text \<open>A value is truthy in a JavaScript condition: present and not the empty string.\<close>

definition truthy :: "string option \<Rightarrow> bool" where
  "truthy v = (case v of None \<Rightarrow> False | Some s \<Rightarrow> s \<noteq> [])"

text \<open>\<open>String.prototype.toLowerCase\<close> on the ASCII letters.\<close>

definition toLowerChar :: "char \<Rightarrow> char" where
  "toLowerChar c =
     (case map_of (zip ''ABCDEFGHIJKLMNOPQRSTUVWXYZ'' ''abcdefghijklmnopqrstuvwxyz'') c of
        None \<Rightarrow> c | Some l \<Rightarrow> l)"

definition toLowerCase :: "string \<Rightarrow> string" where
  "toLowerCase s = map toLowerChar s"

text \<open>
  \<open>parseInt\<close> on a non-empty string of decimal digits; every other string is treated as
  \<open>NaN\<close>. The strings it is applied to are the components of stored times of day.
\<close>

definition parseInt :: "string \<Rightarrow> nat option" where
  "parseInt s = (if s = [] then None else Number s)"

section \<open>Time-grid generation (\<open>DateUtils.generateTimeSlots\<close>)\<close>

text \<open>The string built in the loop body from \<open>currentMinutes\<close>.\<close>

definition timeString :: "nat \<Rightarrow> string" where
  "timeString currentMinutes =
     padStart 2 CHR ''0'' (toString (currentMinutes div 60)) @ '':'' @
     padStart 2 CHR ''0'' (toString (currentMinutes mod 60))"

text \<open>
  The \<open>while (currentMinutes < endMinutes)\<close> loop. With a duration of 0 the source never
  leaves the loop; the result \<open>None\<close> stands for that.
\<close>

partial_function (option) slotLoop :: "nat \<Rightarrow> nat \<Rightarrow> nat \<Rightarrow> string list \<Rightarrow> string list option" where
  "slotLoop currentMinutes endMinutes duration slots =
     (if currentMinutes < endMinutes
      then slotLoop (currentMinutes + duration) endMinutes duration (slots @ [timeString currentMinutes])
      else Some slots)"

text \<open>
  \<open>DateUtils.generateTimeSlots(startTime, endTime, duration)\<close>. When either bound is
  \<open>NaN\<close> the loop condition is false at once and the empty list is returned.
\<close>

definition generateTimeSlots :: "string \<Rightarrow> string \<Rightarrow> nat \<Rightarrow> string list option" where
  "generateTimeSlots startTime endTime duration =
     (case (toMinutes startTime, toMinutes endTime) of
        (Some currentMinutes, Some endMinutes) \<Rightarrow> slotLoop currentMinutes endMinutes duration []
      | _ \<Rightarrow> Some [])"

section \<open>The AvailableDate model\<close>

record availableDate =
  aid :: nat
  adate :: string
  startTime :: string
  endTime :: string
  slotDuration :: nat
  isActive :: bool
  anotes :: string

text \<open>
  The instance method \<open>generateTimeSlots\<close> of the schema: the same loop over the
  document's own fields.
\<close>

definition availableDate_generateTimeSlots :: "availableDate \<Rightarrow> string list option" where
  "availableDate_generateTimeSlots ad =
     (case (toMinutes (startTime ad), toMinutes (endTime ad)) of
        (Some currentMinutes, Some endMinutes) \<Rightarrow> slotLoop currentMinutes endMinutes (slotDuration ad) []
      | _ \<Rightarrow> Some [])"

text \<open>
  The virtual \<open>totalSlots\<close>: \<open>Math.floor((endMinutes - startMinutes) / slotDuration)\<close>.
  The difference may be negative, so it is computed over the integers; \<open>None\<close> is a
  non-finite result (an unparsable time, or a division by 0).
\<close>

definition totalSlots :: "availableDate \<Rightarrow> int option" where
  "totalSlots ad =
     (case (toMinutes (startTime ad), toMinutes (endTime ad)) of
        (Some startMinutes, Some endMinutes) \<Rightarrow>
          (if slotDuration ad = 0 then None
           else Some ((int endMinutes - int startMinutes) div int (slotDuration ad)))
      | _ \<Rightarrow> None)"

text \<open>\<open>isValidTimeSlot\<close>: \<open>this.generateTimeSlots().includes(timeSlot)\<close>.\<close>

definition isValidTimeSlot :: "availableDate \<Rightarrow> string \<Rightarrow> bool option" where
  "isValidTimeSlot ad timeSlot = map_option (\<lambda>slots. timeSlot \<in> set slots) (availableDate_generateTimeSlots ad)"

section \<open>Documents, the store and the environment of a request\<close>

record customer =
  cname :: string
  cemail :: string
  cphone :: string
  cnotes :: string

text \<open>
  A Booking document. \<open>bid\<close> is the \<open>_id\<close>. Absent optional strings of the customer are
  the empty string (both are falsy and have length 0); absent dates and the absent
  cancellation reason are \<open>None\<close>.
\<close>

record booking =
  bid :: nat
  date :: string
  timeSlot :: string
  customer :: customer
  status :: string
  bookingReference :: string
  source :: string
  paymentStatus :: string
  checkedInAt :: "int option"
  cancelledAt :: "int option"
  cancellationReason :: "string option"
  createdBy :: "nat option"
  createdAt :: int
  updatedAt :: int

text \<open>
  The two collections, in insertion order, and the supply of fresh \<open>_id\<close> values.
\<close>

record store =
  bookings :: "booking list"
  availableDates :: "availableDate list"
  nextId :: nat

definition emptyStore :: store where
  "emptyStore = \<lparr>bookings = [], availableDates = [], nextId = 0\<rparr>"

text \<open>
  What a request reads besides the store. The clock: \<open>today\<close> is
  \<open>DateUtils.getCurrentDate()\<close>, \<open>currentTime\<close> is \<open>DateUtils.getCurrentTime()\<close>, \<open>maxDate\<close> is
  \<open>DateUtils.getDateAfterDays(config.business.maxAdvanceBookingDays)\<close>, \<open>now\<close> is
  \<open>new Date()\<close> in milliseconds, \<open>dateStr\<close> and \<open>timeStr\<close> are the two stamps computed in
  \<open>generateBookingReference\<close>, and \<open>dateTime d t\<close> is \<open>new Date(`${d}T${t}:00`)\<close> in
  milliseconds (\<open>None\<close> for an invalid date). \<open>production\<close> is
  \<open>config.env === 'production'\<close>. The remaining fields stand for the pattern of the
  schema's email validator and for the functions of \<open>Validators\<close> applied to customer
  input; they are parameters of the model, and \<open>None\<close> (or \<open>Inl\<close> with the message) is
  their \<open>isValid: false\<close>.
\<close>

record env =
  today :: string
  currentTime :: string
  maxDate :: string
  now :: int
  dateStr :: string
  timeStr :: string
  dateTime :: "string \<Rightarrow> string \<Rightarrow> int option"
  production :: bool
  emailMatches :: "string \<Rightarrow> bool"
  validateCustomer :: "customer \<Rightarrow> customer option"
  validateEmail :: "string \<Rightarrow> string option"
  validatePhone :: "string \<Rightarrow> string option"
  validateNotes :: "string \<Rightarrow> string + string"

text \<open>
  Errors thrown by \<open>save\<close>: a Mongoose validation error, an \<open>Error\<close> raised by a
  pre-save hook with its message, and the duplicate-key error 11000 of a unique index
  with the fields of its \<open>keyValue\<close>.
\<close>

datatype saveError = ValidationError | HookError string | DuplicateKey "string list"

datatype payload =
    NoData
  | BookingData booking
  | AvailableDateData availableDate
  | BulkDatesData "availableDate list" "(string \<times> saveError) list"
  | BulkUpdateData nat nat

text \<open>
  An HTTP response: \<open>respondWithSuccess\<close> (status code, message, data) or
  \<open>respondWithError\<close> (status code, message). The detail object of an error is left out.
\<close>

datatype response = Success nat string payload | Error nat string

section \<open>\<open>DateUtils\<close>: the date checks\<close>

definition isPastDate :: "env \<Rightarrow> string \<Rightarrow> bool" where
  "isPastDate e d = (d < today e)"

definition isToday :: "env \<Rightarrow> string \<Rightarrow> bool" where
  "isToday e d = (d = today e)"

definition isPastTimeSlot :: "env \<Rightarrow> string \<Rightarrow> string \<Rightarrow> bool" where
  "isPastTimeSlot e d t = (if \<not> isToday e d then isPastDate e d else t \<le> currentTime e)"

definition isWithinBookingLimit :: "env \<Rightarrow> string \<Rightarrow> bool" where
  "isWithinBookingLimit e d = (d \<le> maxDate e)"

section \<open>The global error handler\<close>

fun errorHandler :: "env \<Rightarrow> saveError \<Rightarrow> response" where
  "errorHandler e (DuplicateKey keyValue) =
     (let field = (case keyValue of [] \<Rightarrow> ''undefined'' | f # _ \<Rightarrow> f)
      in Error 400
        (if field = ''email'' then ''Email address is already registered''
         else if field = ''username'' then ''Username is already taken''
         else if field = ''bookingReference'' then ''Booking reference already exists''
         else if ''date'' \<in> set keyValue \<and> ''timeSlot'' \<in> set keyValue
           then ''This time slot is already booked''
         else ''Duplicate field value: '' @ field))"
| "errorHandler e ValidationError = Error 400 ''Validation Error''"
| "errorHandler e (HookError message) =
     (if includesStr message ''already booked'' then Error 409 ''This time slot is already booked''
      else if includesStr message ''not available'' then Error 400 ''Selected time slot is not available''
      else if includesStr message ''past date'' then Error 400 ''Cannot book dates in the past''
      else Error 500
        (if production e then ''Something went wrong''
         else if message = [] then ''Internal Server Error'' else message))"

section \<open>The Booking model\<close>

definition bookingReferencePrefix :: string where
  "bookingReferencePrefix = ''SM''"

text \<open>
  The \<open>do \<dots> while (counter <= 999)\<close> loop of \<open>generateBookingReference\<close>: the candidate
  is built, looked up, and either returned (\<open>break\<close>) or the counter is advanced; when
  the advanced counter exceeds 999 the loop ends and the last candidate is returned.
\<close>

function referenceLoop :: "string \<Rightarrow> booking list \<Rightarrow> nat \<Rightarrow> string" where
  "referenceLoop stem bs counter =
     (let reference = stem @ toString counter
      in case find (\<lambda>b. bookingReference b = reference) bs of
           None \<Rightarrow> reference
         | Some existing \<Rightarrow>
             (if counter + 1 \<le> 999 then referenceLoop stem bs (counter + 1) else reference))"
  by pat_completeness auto
termination
  by (relation "measure (\<lambda>(stem, bs, counter). 1000 - counter)") auto

declare referenceLoop.simps [simp del]

definition generateBookingReference :: "env \<Rightarrow> booking list \<Rightarrow> string" where
  "generateBookingReference e bs =
     referenceLoop (bookingReferencePrefix @ dateStr e @ timeStr e) bs 1"

text \<open>The lookup of the loop: \<open>findOne({ bookingReference: reference })\<close> finds a booking.\<close>

definition inUse :: "booking list \<Rightarrow> string \<Rightarrow> bool" where
  "inUse bs r = (find (\<lambda>b. bookingReference b = r) bs \<noteq> None)"

text \<open>
  Schema validation at \<open>save\<close>. Before every save Mongoose runs the validators of all
  paths of the document that carry a value, the paths loaded from the store as well as
  the modified ones; an absent optional value is not validated.
\<close>

definition validateBooking :: "env \<Rightarrow> booking \<Rightarrow> bool" where
  "validateBooking e doc =
     (matchesDate (date doc) \<and> matchesTime (timeSlot doc) \<and>
      2 \<le> length (cname (customer doc)) \<and> length (cname (customer doc)) \<le> 100 \<and>
      emailMatches e (cemail (customer doc)) \<and> matchesPhone (cphone (customer doc)) \<and>
      length (cnotes (customer doc)) \<le> 1000 \<and>
      status doc \<in> set [''pending'', ''confirmed'', ''cancelled'', ''completed'', ''no-show''] \<and>
      source doc \<in> set [''online'', ''phone'', ''walk-in'', ''admin''] \<and>
      paymentStatus doc \<in> set [''pending'', ''paid'', ''refunded'', ''not-required''] \<and>
      (case cancellationReason doc of None \<Rightarrow> True | Some r \<Rightarrow> length r \<le> 500))"

text \<open>
  \<open>isNew || isModified(path)\<close>: \<open>old\<close> is \<open>None\<close> for a new document and the stored
  version otherwise, and a path is modified when its value differs from the stored one.
\<close>

definition modified :: "booking option \<Rightarrow> booking \<Rightarrow> (booking \<Rightarrow> 'a) \<Rightarrow> bool" where
  "modified old doc path = (case old of None \<Rightarrow> True | Some stored \<Rightarrow> path stored \<noteq> path doc)"

text \<open>
  The unique indexes of the collection: \<open>bookingReference\<close>, and the compound index
  \<open>{ date: 1, timeSlot: 1 }\<close>, which has no filter on the status. A write is checked
  against an index when it inserts a document or changes a field of the index. The result
  names the fields of the violated index.
\<close>

definition uniqueIndexViolation :: "booking list \<Rightarrow> booking option \<Rightarrow> booking \<Rightarrow> string list option" where
  "uniqueIndexViolation bs old doc =
     (if modified old doc bookingReference \<and>
         list_ex (\<lambda>x. bid x \<noteq> bid doc \<and> bookingReference x = bookingReference doc) bs
        then Some [''bookingReference'']
      else if (modified old doc date \<or> modified old doc timeSlot) \<and>
              list_ex (\<lambda>x. bid x \<noteq> bid doc \<and> date x = date doc \<and> timeSlot x = timeSlot doc) bs
        then Some [''date'', ''timeSlot'']
      else None)"

text \<open>
  \<open>document.save()\<close>: validation, then the two pre-save hooks in the order of their
  registration (reference generation, double-booking check), then the write, which the
  unique indexes may reject. \<open>updatedAt\<close> is stamped on a new document and on a stored
  one that was modified. A new document receives its \<open>_id\<close> and is appended; a stored one
  is replaced in place.
\<close>

definition save :: "env \<Rightarrow> store \<Rightarrow> booking option \<Rightarrow> booking \<Rightarrow> saveError + (booking \<times> store)" where
  "save e s old doc0 =
     (let doc = (case old of None \<Rightarrow> doc0\<lparr>bid := nextId s, createdAt := now e\<rparr> | Some stored \<Rightarrow> doc0)
      in if \<not> validateBooking e doc then Inl ValidationError
      else
        let doc1 = (if bookingReference doc = []
                    then doc\<lparr>bookingReference := generateBookingReference e (bookings s)\<rparr>
                    else doc)
        in if (modified old doc1 date \<or> modified old doc1 timeSlot) \<and>
              find (\<lambda>x. date x = date doc1 \<and> timeSlot x = timeSlot doc1 \<and>
                         status x \<noteq> ''cancelled'' \<and> bid x \<noteq> bid doc1) (bookings s) \<noteq> None
           then Inl (HookError ''This time slot is already booked'')
           else
             let doc2 = (if old = Some doc then doc1 else doc1\<lparr>updatedAt := now e\<rparr>)
             in case uniqueIndexViolation (bookings s) old doc2 of
                  Some keyValue \<Rightarrow> Inl (DuplicateKey keyValue)
                | None \<Rightarrow>
                    (case old of
                       None \<Rightarrow> Inr (doc2, s\<lparr>bookings := bookings s @ [doc2], nextId := Suc (nextId s)\<rparr>)
                     | Some stored \<Rightarrow>
                         Inr (doc2, s\<lparr>bookings := map (\<lambda>x. if bid x = bid doc2 then doc2 else x) (bookings s)\<rparr>)))"

text \<open>The setters of the customer paths (\<open>trim\<close>, and \<open>lowercase\<close> on the email).\<close>

definition customerSetters :: "customer \<Rightarrow> customer" where
  "customerSetters c =
     \<lparr>cname = trim (cname c), cemail = toLowerCase (trim (cemail c)),
      cphone = trim (cphone c), cnotes = trim (cnotes c)\<rparr>"

text \<open>\<open>new Booking({\<dots>})\<close> with the defaults of the schema for the paths not given.\<close>

definition newBooking :: "string \<Rightarrow> string \<Rightarrow> customer \<Rightarrow> string \<Rightarrow> string \<Rightarrow> nat option \<Rightarrow> booking" where
  "newBooking d t c st src creator =
     \<lparr>bid = 0, date = d, timeSlot = t, customer = customerSetters c, status = st,
      bookingReference = [], source = src, paymentStatus = ''not-required'',
      checkedInAt = None, cancelledAt = None, cancellationReason = None,
      createdBy = creator, createdAt = 0, updatedAt = 0\<rparr>"

text \<open>The instance methods \<open>cancel\<close> and \<open>checkIn\<close>.\<close>

definition booking_cancel :: "env \<Rightarrow> store \<Rightarrow> booking \<Rightarrow> string option \<Rightarrow> saveError + (booking \<times> store)" where
  "booking_cancel e s b reason =
     save e s (Some b)
       (b\<lparr>status := ''cancelled'', cancelledAt := Some (now e),
          cancellationReason := (if truthy reason then reason else cancellationReason b)\<rparr>)"

definition booking_checkIn :: "env \<Rightarrow> store \<Rightarrow> booking \<Rightarrow> saveError + (booking \<times> store)" where
  "booking_checkIn e s b = save e s (Some b) (b\<lparr>checkedInAt := Some (now e)\<rparr>)"

section \<open>\<open>BookingController\<close>\<close>

text \<open>
  Every handler takes the environment, the store and the fields of the request and returns
  the response with the store it leaves. Handlers that generate a time grid return an
  option: \<open>None\<close> is a handler that never responds because the grid loop does not end.
\<close>

definition createBooking ::
  "env \<Rightarrow> store \<Rightarrow> string \<Rightarrow> string \<Rightarrow> customer \<Rightarrow> nat option \<Rightarrow> (response \<times> store) option" where
  "createBooking e s d t c user =
     (case validateCustomer e c of
        None \<Rightarrow> Some (Error 400 ''Customer validation failed'', s)
      | Some validated \<Rightarrow>
          if isPastDate e d then Some (Error 400 ''Cannot book dates in the past'', s)
          else if isPastTimeSlot e d t then Some (Error 400 ''Cannot book past time slots'', s)
          else if \<not> isWithinBookingLimit e d
            then Some (Error 400 ''Date is beyond the maximum advance booking period'', s)
          else
            (case find (\<lambda>a. adate a = d \<and> isActive a) (availableDates s) of
               None \<Rightarrow> Some (Error 400 ''Selected date is not available for booking'', s)
             | Some availableDate \<Rightarrow>
                 (case isValidTimeSlot availableDate t of
                    None \<Rightarrow> None
                  | Some valid \<Rightarrow>
                      if \<not> valid then Some (Error 400 ''Invalid time slot for the selected date'', s)
                      else
                        (case find (\<lambda>b. date b = d \<and> timeSlot b = t \<and> status b \<noteq> ''cancelled'') (bookings s) of
                           Some existingBooking \<Rightarrow> Some (Error 409 ''This time slot is already booked'', s)
                         | None \<Rightarrow>
                             (case save e s None (newBooking d t validated ''confirmed'' ''online'' user) of
                                Inl err \<Rightarrow> Some (errorHandler e err, s)
                              | Inr (b, s') \<Rightarrow>
                                  Some (Success 201 ''Booking created successfully'' (BookingData b), s'))))))"

definition createSimpleBooking ::
  "env \<Rightarrow> store \<Rightarrow> string \<Rightarrow> string \<Rightarrow> string \<Rightarrow> string \<Rightarrow> string \<Rightarrow> string \<Rightarrow> (response \<times> store) option" where
  "createSimpleBooking e s username email phone notes d t =
     (if username = [] \<or> email = [] \<or> phone = [] \<or> d = [] \<or> t = []
        then Some (Error 400 ''Username, email, phone, date, and time are required'', s)
      else
        (case validateEmail e email of
           None \<Rightarrow> Some (Error 400 ''Invalid email format'', s)
         | Some validEmail \<Rightarrow>
             (case validatePhone e phone of
                None \<Rightarrow> Some (Error 400 ''Invalid phone number format'', s)
              | Some validPhone \<Rightarrow>
                  if \<not> matchesDate d then Some (Error 400 ''Date must be in YYYY-MM-DD format'', s)
                  else if \<not> matchesTime t then Some (Error 400 ''Time must be in HH:MM format'', s)
                  else if isPastDate e d then Some (Error 400 ''Cannot book dates in the past'', s)
                  else if isPastTimeSlot e d t then Some (Error 400 ''Cannot book past time slots'', s)
                  else if \<not> isWithinBookingLimit e d
                    then Some (Error 400 ''Date is beyond the maximum advance booking period'', s)
                  else
                    (case find (\<lambda>a. adate a = d \<and> isActive a) (availableDates s) of
                       None \<Rightarrow> Some (Error 400 ''Selected date is not available for booking'', s)
                     | Some availableDate \<Rightarrow>
                         (case isValidTimeSlot availableDate t of
                            None \<Rightarrow> None
                          | Some valid \<Rightarrow>
                              if \<not> valid then Some (Error 400 ''Invalid time slot for the selected date'', s)
                              else
                                (case find (\<lambda>b. date b = d \<and> timeSlot b = t \<and> status b \<noteq> ''cancelled'') (bookings s) of
                                   Some existingBooking \<Rightarrow> Some (Error 409 ''This time slot is already booked'', s)
                                 | None \<Rightarrow>
                                     (case save e s None
                                             (newBooking d t
                                                \<lparr>cname = trim username, cemail = validEmail, cphone = validPhone,
                                                 cnotes = trim notes\<rparr>
                                                ''confirmed'' ''admin'' None) of
                                        Inl err \<Rightarrow> Some (errorHandler e err, s)
                                      | Inr (b, s') \<Rightarrow>
                                          Some (Success 201 ''Booking created successfully'' (BookingData b), s'))))))))"

definition updateBooking ::
  "env \<Rightarrow> store \<Rightarrow> string \<Rightarrow> customer option \<Rightarrow> string option \<Rightarrow> response \<times> store" where
  "updateBooking e s ref c notes =
     (case find (\<lambda>b. bookingReference b = ref) (bookings s) of
        None \<Rightarrow> (Error 404 ''Booking not found'', s)
      | Some b \<Rightarrow>
          if status b = ''cancelled'' then (Error 400 ''Cannot modify cancelled booking'', s)
          else if status b = ''completed'' then (Error 400 ''Cannot modify completed booking'', s)
          else if isPastTimeSlot e (date b) (timeSlot b) then (Error 400 ''Cannot modify past bookings'', s)
          else
            (case (case c of
                     None \<Rightarrow> Inr b
                   | Some given \<Rightarrow>
                       (case validateCustomer e given of
                          None \<Rightarrow> Inl ''Customer validation failed''
                        | Some validated \<Rightarrow> Inr (b\<lparr>customer := customerSetters validated\<rparr>))) of
               Inl message \<Rightarrow> (Error 400 message, s)
             | Inr b1 \<Rightarrow>
                 (case (case notes of
                          None \<Rightarrow> Inr b1
                        | Some given \<Rightarrow>
                            (case validateNotes e given of
                               Inl message \<Rightarrow> Inl message
                             | Inr validNotes \<Rightarrow> Inr (b1\<lparr>customer := (customer b1)\<lparr>cnotes := trim validNotes\<rparr>\<rparr>))) of
                    Inl message \<Rightarrow> (Error 400 message, s)
                  | Inr b2 \<Rightarrow>
                      (case save e s (Some b) b2 of
                         Inl err \<Rightarrow> (errorHandler e err, s)
                       | Inr (b', s') \<Rightarrow> (Success 200 ''Booking updated successfully'' (BookingData b'), s')))))"

text \<open>
  The cancellation policy compares \<open>(bookingDateTime - now) / (1000 * 60 * 60)\<close> with 2 and
  with 0; the division by a positive constant keeps the order, so the comparison is made
  on the milliseconds. An invalid date makes both comparisons false.
\<close>

definition withinTwoHours :: "env \<Rightarrow> booking \<Rightarrow> bool" where
  "withinTwoHours e b =
     (case dateTime e (date b) (timeSlot b) of
        None \<Rightarrow> False
      | Some bookingDateTime \<Rightarrow>
          bookingDateTime - now e < 2 * (1000 * 60 * 60) \<and> bookingDateTime - now e > 0)"

definition cancelBooking :: "env \<Rightarrow> store \<Rightarrow> string \<Rightarrow> string option \<Rightarrow> response \<times> store" where
  "cancelBooking e s ref reason =
     (case find (\<lambda>b. bookingReference b = ref) (bookings s) of
        None \<Rightarrow> (Error 404 ''Booking not found'', s)
      | Some b \<Rightarrow>
          if status b = ''cancelled'' then (Error 400 ''Booking is already cancelled'', s)
          else if status b = ''completed'' then (Error 400 ''Cannot cancel completed booking'', s)
          else if withinTwoHours e b
            then (Error 400 ''Cannot cancel booking within 2 hours of appointment time'', s)
          else
            (case booking_cancel e s b reason of
               Inl err \<Rightarrow> (errorHandler e err, s)
             | Inr (b', s') \<Rightarrow> (Success 200 ''Booking cancelled successfully'' (BookingData b'), s')))"

definition rescheduleNotes :: "booking \<Rightarrow> string \<Rightarrow> string" where
  "rescheduleNotes b reason =
     (if cnotes (customer b) \<noteq> []
      then cnotes (customer b) @ [CHR 0x0A, CHR 0x0A] @ ''Rescheduled from '' @ date b @ '' '' @ timeSlot b @ '': '' @ reason
      else ''Rescheduled from '' @ date b @ '' '' @ timeSlot b @ '': '' @ reason)"

definition rescheduleBooking ::
  "env \<Rightarrow> store \<Rightarrow> string \<Rightarrow> string \<Rightarrow> string \<Rightarrow> string option \<Rightarrow> (response \<times> store) option" where
  "rescheduleBooking e s ref newDate newTimeSlot reason =
     (case find (\<lambda>b. bookingReference b = ref) (bookings s) of
        None \<Rightarrow> Some (Error 404 ''Booking not found'', s)
      | Some b \<Rightarrow>
          if status b = ''cancelled'' then Some (Error 400 ''Cannot reschedule cancelled booking'', s)
          else if status b = ''completed'' then Some (Error 400 ''Cannot reschedule completed booking'', s)
          else if isPastDate e newDate then Some (Error 400 ''Cannot reschedule to a past date'', s)
          else if isPastTimeSlot e newDate newTimeSlot
            then Some (Error 400 ''Cannot reschedule to a past time slot'', s)
          else
            (case find (\<lambda>a. adate a = newDate \<and> isActive a) (availableDates s) of
               None \<Rightarrow> Some (Error 400 ''New date is not available for booking'', s)
             | Some newAvailableDate \<Rightarrow>
                 (case isValidTimeSlot newAvailableDate newTimeSlot of
                    None \<Rightarrow> None
                  | Some valid \<Rightarrow>
                      if \<not> valid then Some (Error 400 ''Invalid time slot for the new date'', s)
                      else
                        (case find (\<lambda>x. date x = newDate \<and> timeSlot x = newTimeSlot \<and>
                                        status x \<noteq> ''cancelled'' \<and> bid x \<noteq> bid b) (bookings s) of
                           Some conflictingBooking \<Rightarrow> Some (Error 409 ''New time slot is already booked'', s)
                         | None \<Rightarrow>
                             (let b1 = b\<lparr>date := newDate, timeSlot := newTimeSlot\<rparr>;
                                  b2 = (case reason of
                                          None \<Rightarrow> b1
                                        | Some r \<Rightarrow>
                                            if r = [] then b1
                                            else b1\<lparr>customer := (customer b1)\<lparr>cnotes := trim (rescheduleNotes b r)\<rparr>\<rparr>)
                              in case save e s (Some b) b2 of
                                   Inl err \<Rightarrow> Some (errorHandler e err, s)
                                 | Inr (b', s') \<Rightarrow>
                                     Some (Success 200
                                             (''Booking rescheduled from '' @ date b @ '' '' @ timeSlot b @
                                              '' to '' @ newDate @ '' '' @ newTimeSlot)
                                             (BookingData b'), s'))))))"

text \<open>
  The minutes of a time of day as the check-in computes them:
  \<open>t.split(':').reduce((acc, time) => acc * 60 + parseInt(time), 0)\<close>.
\<close>

definition reduceMinutes :: "string \<Rightarrow> nat option" where
  "reduceMinutes t =
     foldl (\<lambda>acc time. case (acc, parseInt time) of (Some a, Some v) \<Rightarrow> Some (a * 60 + v) | _ \<Rightarrow> None)
       (Some 0) (split CHR '':'' t)"

definition checkInBooking :: "env \<Rightarrow> store \<Rightarrow> string \<Rightarrow> response \<times> store" where
  "checkInBooking e s ref =
     (case find (\<lambda>b. bookingReference b = ref) (bookings s) of
        None \<Rightarrow> (Error 404 ''Booking not found'', s)
      | Some b \<Rightarrow>
          if status b \<noteq> ''confirmed'' then (Error 400 ''Only confirmed bookings can be checked in'', s)
          else if date b \<noteq> today e then (Error 400 ''Can only check in for today's bookings'', s)
          else if (case (reduceMinutes (currentTime e), reduceMinutes (timeSlot b)) of
                     (Some currentMinutes, Some bookingMinutes) \<Rightarrow>
                       (if currentMinutes < bookingMinutes then bookingMinutes - currentMinutes
                        else currentMinutes - bookingMinutes) > 30
                   | _ \<Rightarrow> False)
            then (Error 400 ''Can only check in within 30 minutes of booking time'', s)
          else
            (case booking_checkIn e s b of
               Inl err \<Rightarrow> (errorHandler e err, s)
             | Inr (b', s') \<Rightarrow> (Success 200 ''Checked in successfully'' (BookingData b'), s')))"

section \<open>The AvailableDate model: validation and \<open>save\<close>\<close>

definition validateAvailableDate :: "availableDate \<Rightarrow> bool" where
  "validateAvailableDate doc =
     (matchesDate (adate doc) \<and> matchesTime (startTime doc) \<and> matchesTime (endTime doc) \<and>
      15 \<le> slotDuration doc \<and> slotDuration doc \<le> 120 \<and> length (anotes doc) \<le> 500)"

text \<open>The pre-save hook of the schema; a comparison with \<open>NaN\<close> is false.\<close>

definition availableDatePreSave :: "availableDate \<Rightarrow> string option" where
  "availableDatePreSave doc =
     (case (toMinutes (startTime doc), toMinutes (endTime doc)) of
        (Some startMinutes, Some endMinutes) \<Rightarrow>
          if startMinutes \<ge> endMinutes then Some ''End time must be after start time''
          else if endMinutes - startMinutes < slotDuration doc
            then Some ''Time range must be at least one slot duration''
          else None
      | _ \<Rightarrow> None)"

text \<open>
  \<open>save\<close> of an AvailableDate: validation, the hook, then the write, which the unique
  index on \<open>date\<close> rejects when a new document or a changed date meets a stored one.
\<close>

definition saveAvailableDate ::
  "store \<Rightarrow> availableDate option \<Rightarrow> availableDate \<Rightarrow> saveError + (availableDate \<times> store)" where
  "saveAvailableDate s old doc0 =
     (let doc = (case old of None \<Rightarrow> doc0\<lparr>aid := nextId s\<rparr> | Some stored \<Rightarrow> doc0)
      in if \<not> validateAvailableDate doc then Inl ValidationError
      else
        (case availableDatePreSave doc of
           Some message \<Rightarrow> Inl (HookError message)
         | None \<Rightarrow>
             if (case old of None \<Rightarrow> True | Some stored \<Rightarrow> adate stored \<noteq> adate doc) \<and>
                list_ex (\<lambda>x. aid x \<noteq> aid doc \<and> adate x = adate doc) (availableDates s)
               then Inl (DuplicateKey [''date''])
             else
               (case old of
                  None \<Rightarrow> Inr (doc, s\<lparr>availableDates := availableDates s @ [doc], nextId := Suc (nextId s)\<rparr>)
                | Some stored \<Rightarrow>
                    Inr (doc, s\<lparr>availableDates := map (\<lambda>x. if aid x = aid doc then doc else x) (availableDates s)\<rparr>))))"

text \<open>\<open>slotDuration || 30\<close>: an absent duration and 0 become 30.\<close>

definition durationOrDefault :: "nat option \<Rightarrow> nat" where
  "durationOrDefault given = (case given of None \<Rightarrow> 30 | Some n \<Rightarrow> if n = 0 then 30 else n)"

section \<open>\<open>AdminController\<close>\<close>

definition createAvailableDate ::
  "env \<Rightarrow> store \<Rightarrow> string \<Rightarrow> string \<Rightarrow> string \<Rightarrow> nat option \<Rightarrow> string option \<Rightarrow> response \<times> store" where
  "createAvailableDate e s d st en duration notes =
     (case find (\<lambda>a. adate a = d) (availableDates s) of
        Some existingDate \<Rightarrow> (Error 409 ''Please select another date to continue'', s)
      | None \<Rightarrow>
          (case saveAvailableDate s None
                  \<lparr>aid = 0, adate = d, startTime = st, endTime = en,
                   slotDuration = durationOrDefault duration, isActive = True,
                   anotes = (case notes of None \<Rightarrow> [] | Some n \<Rightarrow> n)\<rparr> of
             Inl err \<Rightarrow> (errorHandler e err, s)
           | Inr (a, s') \<Rightarrow> (Success 201 ''Available date created successfully'' (AvailableDateData a), s')))"

text \<open>One entry of the \<open>dates\<close> array of a bulk request.\<close>

record dateConfig =
  dc_date :: string
  dc_startTime :: string
  dc_endTime :: string
  dc_slotDuration :: "nat option"
  dc_notes :: "string option"

text \<open>
  \<open>new AvailableDate({\<dots>})\<close> for an entry, with \<open>slotDuration || 30\<close> and \<open>notes || ''\<close>.
\<close>

definition newAvailableDate :: "dateConfig \<Rightarrow> availableDate" where
  "newAvailableDate dateConfig =
     \<lparr>aid = 0, adate = dc_date dateConfig, startTime = dc_startTime dateConfig,
      endTime = dc_endTime dateConfig,
      slotDuration = durationOrDefault (dc_slotDuration dateConfig), isActive = True,
      anotes = (case dc_notes dateConfig of None \<Rightarrow> [] | Some n \<Rightarrow> n)\<rparr>"

text \<open>
  The \<open>for (const dateConfig of dates)\<close> loop of \<open>createBulkAvailableDates\<close> with its
  \<open>try\<close>/\<open>catch\<close>: a saved document is pushed to \<open>created\<close>, a thrown error to \<open>errors\<close>
  with the date of the entry, and the loop goes on to the next entry in both cases.
\<close>

fun bulkLoop ::
  "store \<Rightarrow> availableDate list \<Rightarrow> (string \<times> saveError) list \<Rightarrow> dateConfig list \<Rightarrow>
   (availableDate list \<times> (string \<times> saveError) list) \<times> store" where
  "bulkLoop s created errors [] = ((created, errors), s)"
| "bulkLoop s created errors (dateConfig # rest) =
     (case saveAvailableDate s None (newAvailableDate dateConfig) of
        Inr (a, s') \<Rightarrow> bulkLoop s' (created @ [a]) errors rest
      | Inl err \<Rightarrow> bulkLoop s created (errors @ [(dc_date dateConfig, err)]) rest)"

definition createBulkAvailableDates :: "store \<Rightarrow> dateConfig list \<Rightarrow> bool \<Rightarrow> response \<times> store" where
  "createBulkAvailableDates s dates skipExisting =
     (let dateStrings = map dc_date dates;
          existingDates = filter (\<lambda>a. adate a \<in> set dateStrings) (availableDates s)
      in if length existingDates > 0 then (Error 409 ''Please select another date'', s)
         else
           (case bulkLoop s [] [] dates of
              ((created, errors), s') \<Rightarrow>
                (Success 200 (''Successfully created '' @ toString (length created) @ '' dates'')
                   (BulkDatesData created errors), s')))"

definition updateAvailableDate ::
  "env \<Rightarrow> store \<Rightarrow> nat \<Rightarrow> string option \<Rightarrow> string option \<Rightarrow> nat option \<Rightarrow> bool option \<Rightarrow> string option \<Rightarrow>
   response \<times> store" where
  "updateAvailableDate e s ident st en duration active notes =
     (case find (\<lambda>a. aid a = ident) (availableDates s) of
        None \<Rightarrow> (Error 404 ''Available date not found'', s)
      | Some a \<Rightarrow>
          if (truthy st \<or> truthy en \<or> duration \<noteq> None) \<and>
             length (filter (\<lambda>b. date b = adate a \<and> status b \<noteq> ''cancelled'') (bookings s)) > 0
            then (Error 400 ''Cannot modify time settings when there are existing bookings'', s)
          else
            (let a1 = (case st of None \<Rightarrow> a | Some v \<Rightarrow> if v = [] then a else a\<lparr>startTime := v\<rparr>);
                 a2 = (case en of None \<Rightarrow> a1 | Some v \<Rightarrow> if v = [] then a1 else a1\<lparr>endTime := v\<rparr>);
                 a3 = (case duration of None \<Rightarrow> a2 | Some n \<Rightarrow> a2\<lparr>slotDuration := n\<rparr>);
                 a4 = (case active of None \<Rightarrow> a3 | Some v \<Rightarrow> a3\<lparr>isActive := v\<rparr>);
                 a5 = (case notes of None \<Rightarrow> a4 | Some n \<Rightarrow> a4\<lparr>anotes := n\<rparr>)
             in case saveAvailableDate s (Some a) a5 of
                  Inl err \<Rightarrow> (errorHandler e err, s)
                | Inr (a', s') \<Rightarrow> (Success 200 ''Available date updated successfully'' (AvailableDateData a'), s')))"

definition deleteAvailableDate :: "store \<Rightarrow> nat \<Rightarrow> response \<times> store" where
  "deleteAvailableDate s ident =
     (case find (\<lambda>a. aid a = ident) (availableDates s) of
        None \<Rightarrow> (Error 404 ''Available date not found'', s)
      | Some a \<Rightarrow>
          if length (filter (\<lambda>b. date b = adate a \<and> status b \<noteq> ''cancelled'') (bookings s)) > 0
            then (Error 400 ''Cannot delete date with existing bookings. Cancel bookings first.'', s)
          else (Success 200 ''Available date deleted successfully'' NoData,
                s\<lparr>availableDates := filter (\<lambda>x. aid x \<noteq> ident) (availableDates s)\<rparr>))"

definition updateBookingStatus ::
  "env \<Rightarrow> store \<Rightarrow> nat \<Rightarrow> string \<Rightarrow> string option \<Rightarrow> response \<times> store" where
  "updateBookingStatus e s ident newStatus reason =
     (case find (\<lambda>b. bid b = ident) (bookings s) of
        None \<Rightarrow> (Error 404 ''Booking not found'', s)
      | Some b \<Rightarrow>
          (let b1 = b\<lparr>status := newStatus\<rparr>;
               b2 = (if newStatus = ''cancelled'' \<and> truthy reason
                     then b1\<lparr>cancellationReason := reason, cancelledAt := Some (now e)\<rparr> else b1)
           in case save e s (Some b) b2 of
                Inl err \<Rightarrow> (errorHandler e err, s)
              | Inr (b', s') \<Rightarrow>
                  (Success 200 (''Booking status updated from '' @ status b @ '' to '' @ newStatus)
                     (BookingData b'), s')))"

definition deleteBooking :: "env \<Rightarrow> store \<Rightarrow> nat \<Rightarrow> string option \<Rightarrow> response \<times> store" where
  "deleteBooking e s ident reason =
     (case find (\<lambda>b. bid b = ident) (bookings s) of
        None \<Rightarrow> (Error 404 ''Booking not found'', s)
      | Some b \<Rightarrow>
          (case save e s (Some b)
                  (b\<lparr>status := ''cancelled'', cancelledAt := Some (now e),
                     cancellationReason := (if truthy reason then reason else cancellationReason b)\<rparr>) of
             Inl err \<Rightarrow> (errorHandler e err, s)
           | Inr (b', s') \<Rightarrow> (Success 200 ''Booking cancelled successfully'' NoData, s')))"

text \<open>
  The update document of \<open>bulkUpdateBookings\<close>, as the function it applies to a matched
  booking, and \<open>Booking.updateMany\<close>, which writes without validation or hooks and stamps
  \<open>updatedAt\<close>.
\<close>

definition updateData :: "env \<Rightarrow> string \<Rightarrow> string option \<Rightarrow> string option \<Rightarrow> booking \<Rightarrow> booking" where
  "updateData e action newStatus reason b =
     (if action = ''update_status'' \<and> truthy newStatus then
        (case newStatus of
           None \<Rightarrow> b
         | Some given \<Rightarrow>
             if given = ''cancelled''
             then b\<lparr>status := given, cancelledAt := Some (now e),
                    cancellationReason := (if truthy reason then reason else cancellationReason b)\<rparr>
             else b\<lparr>status := given\<rparr>)
      else if action = ''cancel'' then
        b\<lparr>status := ''cancelled'', cancelledAt := Some (now e),
          cancellationReason := (if truthy reason then reason else cancellationReason b)\<rparr>
      else b)"

definition bulkUpdateBookings ::
  "env \<Rightarrow> store \<Rightarrow> nat list \<Rightarrow> string \<Rightarrow> string option \<Rightarrow> string option \<Rightarrow> response \<times> store" where
  "bulkUpdateBookings e s bookingIds action newStatus reason =
     (if bookingIds = [] then (Error 400 ''Booking IDs array is required'', s)
      else if action \<notin> set [''update_status'', ''cancel'']
        then (Error 400 ''Invalid action. Use \"update_status\" or \"cancel\"'', s)
      else
        (let upd = (\<lambda>b. (updateData e action newStatus reason b)\<lparr>updatedAt := now e\<rparr>);
             matched = filter (\<lambda>b. bid b \<in> set bookingIds) (bookings s);
             modifiedCount = length (filter (\<lambda>b. upd b \<noteq> b) matched)
         in (Success 200 (''Bulk operation completed. '' @ toString modifiedCount @ '' bookings updated.'')
               (BulkUpdateData modifiedCount (length matched)),
             s\<lparr>bookings := map (\<lambda>b. if bid b \<in> set bookingIds then upd b else b) (bookings s)\<rparr>)))"

section \<open>Requests and reachable stores\<close>

datatype request =
    CreateBooking string string customer "nat option"
  | CreateSimpleBooking string string string string string string
  | UpdateBooking string "customer option" "string option"
  | CancelBooking string "string option"
  | RescheduleBooking string string string "string option"
  | CheckInBooking string
  | UpdateBookingStatus nat string "string option"
  | DeleteBooking nat "string option"
  | BulkUpdateBookings "nat list" string "string option" "string option"
  | CreateAvailableDate string string string "nat option" "string option"
  | CreateBulkAvailableDates "dateConfig list" bool
  | UpdateAvailableDate nat "string option" "string option" "nat option" "bool option" "string option"
  | DeleteAvailableDate nat

fun handle :: "env \<Rightarrow> store \<Rightarrow> request \<Rightarrow> (response \<times> store) option" where
  "handle e s (CreateBooking d t c user) = createBooking e s d t c user"
| "handle e s (CreateSimpleBooking username email phone notes d t) =
     createSimpleBooking e s username email phone notes d t"
| "handle e s (UpdateBooking ref c notes) = Some (updateBooking e s ref c notes)"
| "handle e s (CancelBooking ref reason) = Some (cancelBooking e s ref reason)"
| "handle e s (RescheduleBooking ref newDate newTimeSlot reason) =
     rescheduleBooking e s ref newDate newTimeSlot reason"
| "handle e s (CheckInBooking ref) = Some (checkInBooking e s ref)"
| "handle e s (UpdateBookingStatus ident newStatus reason) =
     Some (updateBookingStatus e s ident newStatus reason)"
| "handle e s (DeleteBooking ident reason) = Some (deleteBooking e s ident reason)"
| "handle e s (BulkUpdateBookings bookingIds action newStatus reason) =
     Some (bulkUpdateBookings e s bookingIds action newStatus reason)"
| "handle e s (CreateAvailableDate d st en duration notes) =
     Some (createAvailableDate e s d st en duration notes)"
| "handle e s (CreateBulkAvailableDates dates skipExisting) =
     Some (createBulkAvailableDates s dates skipExisting)"
| "handle e s (UpdateAvailableDate ident st en duration active notes) =
     Some (updateAvailableDate e s ident st en duration active notes)"
| "handle e s (DeleteAvailableDate ident) = Some (deleteAvailableDate s ident)"

text \<open>
  The stores the service can be in: the empty one, and every store a handler leaves when
  it answers a request, under any environment.
\<close>

inductive reachable :: "store \<Rightarrow> bool" where
  initial: "reachable emptyStore"
| request: "reachable s \<Longrightarrow> handle e s r = Some (resp, s') \<Longrightarrow> reachable s'"

text \<open>
  The invariant of the Booking entity: for a given \<open>(date, timeSlot)\<close> at most one booking
  whose status is not \<open>cancelled\<close>. The bookings open at a slot are listed, and there is
  at most one of them.
\<close>

definition openBookingsAt :: "store \<Rightarrow> string \<Rightarrow> string \<Rightarrow> booking list" where
  "openBookingsAt s d t = filter (\<lambda>b. date b = d \<and> timeSlot b = t \<and> status b \<noteq> ''cancelled'') (bookings s)"

section \<open>Concrete inputs used in the examples\<close>

definition exampleWindow :: availableDate where
  "exampleWindow = \<lparr>aid = 0, adate = ''2025-09-25'', startTime = ''09:00'', endTime = ''10:15'',
     slotDuration = 30, isActive = True, anotes = []\<rparr>"

text \<open>
  An environment at 2025-09-25 14:30 (UTC); its \<open>dateTime\<close> knows the one slot that is
  booked in the scenario. The validators accept the customers below as they are (their
  fields are trimmed, the email is in lower case and matches the schema pattern).
\<close>

definition exampleEnv :: env where
  "exampleEnv =
     \<lparr>today = ''2025-09-25'', currentTime = ''14:30'', maxDate = ''2026-09-25'',
      now = 1758810600000, dateStr = ''20250925'', timeStr = ''1430'',
      dateTime = (\<lambda>d t. if d = ''2025-09-26'' \<and> t = ''10:00'' then Some 1758880800000 else None),
      production = False,
      emailMatches = (\<lambda>x. True), validateCustomer = Some,
      validateEmail = Some, validatePhone = Some, validateNotes = Inr\<rparr>"

definition alice :: customer where
  "alice = \<lparr>cname = ''Alice Smith'', cemail = ''alice@example.com'', cphone = ''+15551234567'', cnotes = []\<rparr>"

definition bob :: customer where
  "bob = \<lparr>cname = ''Bob Jones'', cemail = ''bob@example.com'', cphone = ''+15557654321'', cnotes = []\<rparr>"

definition window1 :: availableDate where
  "window1 = \<lparr>aid = 0, adate = ''2025-09-26'', startTime = ''09:00'', endTime = ''17:00'',
     slotDuration = 30, isActive = True, anotes = []\<rparr>"

definition store1 :: store where
  "store1 = \<lparr>bookings = [], availableDates = [window1], nextId = 1\<rparr>"

definition bookingA :: booking where
  "bookingA =
     \<lparr>bid = 1, date = ''2025-09-26'', timeSlot = ''10:00'', customer = alice,
      status = ''confirmed'', bookingReference = ''SM2025092514301'',
      source = ''online'', paymentStatus = ''not-required'',
      checkedInAt = None, cancelledAt = None, cancellationReason = None,
      createdBy = None, createdAt = 1758810600000, updatedAt = 1758810600000\<rparr>"

definition store2 :: store where
  "store2 = \<lparr>bookings = [bookingA], availableDates = [window1], nextId = 2\<rparr>"

definition store3 :: store where
  "store3 = \<lparr>bookings = [bookingA\<lparr>status := ''cancelled'', cancelledAt := Some 1758810600000\<rparr>],
     availableDates = [window1], nextId = 2\<rparr>"

text \<open>
  999 bookings whose references are the 999 candidates of the minute 2025-09-25 14:30,
  on pairwise different slots.
\<close>

definition referenceBooking :: "nat \<Rightarrow> booking" where
  "referenceBooking n =
     \<lparr>bid = n, date = ''2026-01-'' @ padStart 2 CHR ''0'' (toString (1 + n div 96)),
      timeSlot = timeString (15 * (n mod 96)), customer = alice,
      status = ''confirmed'', bookingReference = ''SM202509251430'' @ toString n,
      source = ''online'', paymentStatus = ''not-required'',
      checkedInAt = None, cancelledAt = None, cancellationReason = None,
      createdBy = None, createdAt = 1758810600000, updatedAt = 1758810600000\<rparr>"

definition exhaustedBookings :: "booking list" where
  "exhaustedBookings = map referenceBooking [1..<1000]"

section \<open>The invariant of the booking collection\<close>

text \<open>The key of the compound unique index.\<close>

definition slotKey :: "booking \<Rightarrow> string \<times> string" where
  "slotKey b = (date b, timeSlot b)"

text \<open>
  What the unique indexes, the reference hook and the id supply maintain: ids, slot keys
  and references are pairwise different, every id is below the next fresh one, and every
  stored booking has a reference.
\<close>

definition storeInv :: "store \<Rightarrow> bool" where
  "storeInv s =
     (distinct (map bid (bookings s)) \<and> distinct (map slotKey (bookings s)) \<and>
      distinct (map bookingReference (bookings s)) \<and>
      (\<forall>b \<in> set (bookings s). bid b < nextId s \<and> bookingReference b \<noteq> []))"

text \<open>The environment at 2025-09-26 10:00, the start of the slot booked in the scenario.\<close>

definition envAtSlot :: env where
  "envAtSlot = exampleEnv\<lparr>today := ''2025-09-26'', currentTime := ''10:00'', now := 1758880800000,
     dateStr := ''20250926'', timeStr := ''1000''\<rparr>"

text \<open>The environment at 2025-09-26 09:00, one hour before the booked slot.\<close>

definition envHourBefore :: env where
  "envHourBefore = exampleEnv\<lparr>today := ''2025-09-26'', currentTime := ''09:00'', now := 1758877200000,
     dateStr := ''20250926'', timeStr := ''0900''\<rparr>"

text \<open>A cancellation reason of 501 characters.\<close>

definition longReason :: string where
  "longReason = replicate 501 CHR ''x''"




text \<open>Entries of bulk requests, each 09:00 to 17:00 in 30-minute slots.\<close>

definition entryFor :: "string \<Rightarrow> dateConfig" where
  "entryFor d = \<lparr>dc_date = d, dc_startTime = ''09:00'', dc_endTime = ''17:00'',
     dc_slotDuration = Some 30, dc_notes = None\<rparr>"

definition windowOct1 :: availableDate where
  "windowOct1 = \<lparr>aid = 0, adate = ''2025-10-01'', startTime = ''09:00'', endTime = ''17:00'',
     slotDuration = 30, isActive = True, anotes = []\<rparr>"

definition storeOct1 :: store where
  "storeOct1 = \<lparr>bookings = [], availableDates = [windowOct1], nextId = 1\<rparr>"


section \<open>The time grid\<close>

lemmas time_eval = toMinutes_def Number_def digitVal_def timeString_def padStart_def
  toString.simps digitChar_def

text \<open>
  The loop returns for every positive duration, and what it appends is the list of the
  points \<open>c + k * d\<close> below the end, for \<open>k = 0, 1, \<dots>\<close> in this order.
\<close>

lemma slotLoop_grid:
  assumes "0 < d"
  shows "\<exists>n. slotLoop c e d acc = Some (acc @ map (\<lambda>k. timeString (c + k * d)) [0..<n])
           \<and> (\<forall>k. k < n \<longleftrightarrow> c + k * d < e)"
  using assms
proof (induction "e - c" arbitrary: c acc rule: less_induct)
  case less
  show ?case
  proof (cases "c < e")
    case False
    then have "slotLoop c e d acc = Some acc" by (subst slotLoop.simps) simp
    moreover have "\<forall>k. k < (0::nat) \<longleftrightarrow> c + k * d < e" using False by simp
    ultimately show ?thesis by (intro exI[of _ 0]) simp
  next
    case True
    have lt: "e - (c + d) < e - c" using True less.prems by simp
    from less.hyps[OF lt less.prems, of "acc @ [timeString c]"]
    obtain n where n: "slotLoop (c + d) e d (acc @ [timeString c]) =
          Some ((acc @ [timeString c]) @ map (\<lambda>k. timeString (c + d + k * d)) [0..<n])"
      and nk: "\<forall>k. k < n \<longleftrightarrow> c + d + k * d < e" by blast
    have "slotLoop c e d acc = slotLoop (c + d) e d (acc @ [timeString c])"
      using True by (subst slotLoop.simps) simp
    also note n
    also have "(acc @ [timeString c]) @ map (\<lambda>k. timeString (c + d + k * d)) [0..<n]
        = acc @ map (\<lambda>k. timeString (c + k * d)) [0..<Suc n]"
      by (simp add: upt_conv_Cons map_Suc_upt[symmetric] add.assoc del: upt_Suc)
    finally have 1: "slotLoop c e d acc = Some (acc @ map (\<lambda>k. timeString (c + k * d)) [0..<Suc n])" .
    have 2: "\<forall>k. k < Suc n \<longleftrightarrow> c + k * d < e"
    proof
      fix k show "k < Suc n \<longleftrightarrow> c + k * d < e"
      proof (cases k)
        case 0 then show ?thesis using True by simp
      next
        case (Suc j) then show ?thesis using nk[rule_format, of j] by (simp add: add.assoc add.commute)
      qed
    qed
    from 1 2 show ?thesis by blast
  qed
qed

lemma grid_ascending: "0 < d \<Longrightarrow> sorted_wrt (<) (map (\<lambda>k. s + k * d) [0..<n])"
  by (simp add: sorted_wrt_map sorted_wrt_iff_nth_less)

lemma example_grid:
  "generateTimeSlots ''09:00'' ''10:15'' 30 = Some [''09:00'', ''09:30'', ''10:00'']"
  by (simp add: generateTimeSlots_def slotLoop.simps time_eval)

lemma empty_range: "generateTimeSlots t t d = Some []"
  by (cases "toMinutes t") (simp_all add: generateTimeSlots_def slotLoop.simps)

text \<open>
  Claim C5. For a start time \<open>s\<close> strictly before an end time \<open>e\<close> (both in minutes, as
  parsed from the strings) and a duration \<open>d\<close> between 15 and 120, \<open>generateTimeSlots\<close>
  returns, and returns the strings of exactly the points \<open>s + k * d\<close> (\<open>k = 0, 1, 2, \<dots>\<close>)
  that are strictly less than \<open>e\<close>, in ascending order. On \<open>09:00\<close>, \<open>10:15\<close>, 30 it
  returns \<open>09:00\<close>, \<open>09:30\<close>, \<open>10:00\<close>; over a zero-length range it returns the empty
  list. The instance method of the AvailableDate schema computes the same list.
\<close>

theorem generateTimeSlots_grid:
  "(\<forall>st en s e d.
      toMinutes st = Some s \<and> toMinutes en = Some e \<and> s < e \<and> 15 \<le> d \<and> d \<le> 120 \<longrightarrow>
      (\<exists>n. generateTimeSlots st en d = Some (map (\<lambda>k. timeString (s + k * d)) [0..<n]) \<and>
           (\<forall>k. k < n \<longleftrightarrow> s + k * d < e) \<and>
           sorted_wrt (<) (map (\<lambda>k. s + k * d) [0..<n]))) \<and>
   generateTimeSlots ''09:00'' ''10:15'' 30 = Some [''09:00'', ''09:30'', ''10:00''] \<and>
   (\<forall>t d. generateTimeSlots t t d = Some []) \<and>
   (\<forall>a. availableDate_generateTimeSlots a = generateTimeSlots (startTime a) (endTime a) (slotDuration a))"
proof (intro conjI allI impI)
  fix st en :: string and s e d :: nat
  assume h: "toMinutes st = Some s \<and> toMinutes en = Some e \<and> s < e \<and> 15 \<le> d \<and> d \<le> 120"
  then have d: "0 < d" by simp
  from slotLoop_grid[OF d, of s e "[]"] obtain n where
    "slotLoop s e d [] = Some (map (\<lambda>k. timeString (s + k * d)) [0..<n])"
    "\<forall>k. k < n \<longleftrightarrow> s + k * d < e" by auto
  with h grid_ascending[OF d, of s n]
  show "\<exists>n. generateTimeSlots st en d = Some (map (\<lambda>k. timeString (s + k * d)) [0..<n]) \<and>
           (\<forall>k. k < n \<longleftrightarrow> s + k * d < e) \<and>
           sorted_wrt (<) (map (\<lambda>k. s + k * d) [0..<n])"
    by (intro exI[of _ n]) (simp add: generateTimeSlots_def)
next
  show "generateTimeSlots ''09:00'' ''10:15'' 30 = Some [''09:00'', ''09:30'', ''10:00'']"
    by (rule example_grid)
next
  fix t :: string and d :: nat show "generateTimeSlots t t d = Some []" by (rule empty_range)
next
  fix a show "availableDate_generateTimeSlots a = generateTimeSlots (startTime a) (endTime a) (slotDuration a)"
    by (simp add: availableDate_generateTimeSlots_def generateTimeSlots_def)
qed

theorem generateTimeSlots_grid_witness:
  "toMinutes ''09:00'' = Some 540 \<and> toMinutes ''17:00'' = Some 1020 \<and>
   (\<exists>n. generateTimeSlots ''09:00'' ''17:00'' 30 = Some (map (\<lambda>k. timeString (540 + k * 30)) [0..<n]) \<and>
        (\<forall>k. k < n \<longleftrightarrow> 540 + k * 30 < 1020) \<and>
        sorted_wrt (<) (map (\<lambda>k. 540 + k * 30) [0..<n]))"
proof -
  have a: "toMinutes ''09:00'' = Some 540" by (simp add: time_eval)
  have b: "toMinutes ''17:00'' = Some 1020" by (simp add: time_eval)
  from generateTimeSlots_grid have
    "toMinutes ''09:00'' = Some 540 \<and> toMinutes ''17:00'' = Some 1020 \<and> (540::nat) < 1020 \<and> (15::nat) \<le> 30 \<and> (30::nat) \<le> 120 \<longrightarrow>
      (\<exists>n. generateTimeSlots ''09:00'' ''17:00'' 30 = Some (map (\<lambda>k. timeString (540 + k * 30)) [0..<n]) \<and>
           (\<forall>k. k < n \<longleftrightarrow> 540 + k * 30 < 1020) \<and>
           sorted_wrt (<) (map (\<lambda>k. 540 + k * 30) [0..<n]))"
    by blast
  with a b show ?thesis by simp
qed

text \<open>
  Claim C10. The claim says that the \<open>totalSlots\<close> virtual and the length of the list of
  \<open>generateTimeSlots\<close> agree on every valid window. On the window 09:00 to 10:15 with
  30-minute slots the virtual is 2 and the list has 3 entries.
\<close>

theorem totalSlots_differs_from_grid:
  "totalSlots exampleWindow = Some 2 \<and>
   map_option length (availableDate_generateTimeSlots exampleWindow) = Some 3"
  by (simp add: totalSlots_def availableDate_generateTimeSlots_def exampleWindow_def slotLoop.simps time_eval)

section \<open>Booking references\<close>

lemma referenceLoop_exhausted:
  assumes "c \<le> 999" and "\<And>n. c \<le> n \<Longrightarrow> n \<le> 999 \<Longrightarrow> inUse bs (stem @ toString n)"
  shows "referenceLoop stem bs c = stem @ toString 999"
  using assms
proof (induction "999 - c" arbitrary: c rule: less_induct)
  case less
  from less.prems have u: "inUse bs (stem @ toString c)" by simp
  then obtain x where x: "find (\<lambda>b. bookingReference b = stem @ toString c) bs = Some x"
    by (auto simp: inUse_def)
  show ?case
  proof (cases "c = 999")
    case True
    with x show ?thesis by (subst referenceLoop.simps) (simp add: Let_def)
  next
    case False
    with less.prems have lt: "c + 1 \<le> 999" by simp
    have "referenceLoop stem bs c = referenceLoop stem bs (c + 1)"
      using x lt by (subst referenceLoop.simps) (simp add: Let_def)
    also have "\<dots> = stem @ toString 999"
      using lt less.prems by (intro less.hyps) auto
    finally show ?thesis .
  qed
qed

lemma referenceLoop_free:
  assumes "c \<le> n" "n \<le> 999" "\<not> inUse bs (stem @ toString n)"
    and "\<And>k. c \<le> k \<Longrightarrow> k < n \<Longrightarrow> inUse bs (stem @ toString k)"
  shows "referenceLoop stem bs c = stem @ toString n"
  using assms
proof (induction "n - c" arbitrary: c rule: less_induct)
  case less
  show ?case
  proof (cases "c = n")
    case True
    with less.prems(3) show ?thesis
      by (subst referenceLoop.simps) (simp add: Let_def inUse_def)
  next
    case False
    with less.prems have lt: "c < n" by simp
    with less.prems have "inUse bs (stem @ toString c)" by simp
    then obtain x where x: "find (\<lambda>b. bookingReference b = stem @ toString c) bs = Some x"
      by (auto simp: inUse_def)
    have "referenceLoop stem bs c = referenceLoop stem bs (c + 1)"
      using x lt less.prems(2) by (subst referenceLoop.simps) (simp add: Let_def)
    also have "\<dots> = stem @ toString n"
      using lt less.prems by (intro less.hyps) auto
    finally show ?thesis .
  qed
qed

lemma exhausted_inUse:
  assumes "1 \<le> n" "n \<le> 999"
  shows "inUse exhaustedBookings (''SM202509251430'' @ toString n)"
proof -
  have "referenceBooking n \<in> set exhaustedBookings"
    using assms by (simp add: exhaustedBookings_def)
  moreover have "bookingReference (referenceBooking n) = ''SM202509251430'' @ toString n"
    by (simp add: referenceBooking_def)
  ultimately show ?thesis
    unfolding inUse_def find_None_iff by blast
qed

text \<open>
  Claim C4. The claim says that generation fails with ExhaustedSequence, returning no
  value, when all 999 suffixes of the minute are in use. With the 999 references of the
  minute 2025-09-25 14:30 stored, \<open>generateBookingReference\<close> returns the last candidate,
  which is in use.
\<close>

theorem reference_exhausted:
  "length exhaustedBookings = 999 \<and>
   generateBookingReference exampleEnv exhaustedBookings = ''SM202509251430999'' \<and>
   inUse exhaustedBookings ''SM202509251430999''"
proof -
  have t: "toString 999 = ''999''" by (simp add: toString.simps digitChar_def)
  have "referenceLoop ''SM202509251430'' exhaustedBookings 1 = ''SM202509251430'' @ toString 999"
  proof (rule referenceLoop_exhausted)
    show "(1::nat) \<le> 999" by simp
  next
    fix n :: nat assume "1 \<le> n" "n \<le> 999"
    then show "inUse exhaustedBookings (''SM202509251430'' @ toString n)"
      by (rule exhausted_inUse)
  qed
  moreover have "inUse exhaustedBookings (''SM202509251430'' @ toString 999)"
    by (rule exhausted_inUse) simp_all
  ultimately show ?thesis
    by (simp add: generateBookingReference_def exampleEnv_def bookingReferencePrefix_def t exhaustedBookings_def)
qed

section \<open>The unique indexes keep the invariant\<close>

lemma distinct_map_replace:
  assumes "distinct (map f xs)" "distinct (map bid xs)"
    and "\<forall>x \<in> set xs. bid x \<noteq> bid d \<longrightarrow> f x \<noteq> f d"
  shows "distinct (map f (map (\<lambda>x. if bid x = bid d then d else x) xs))"
proof -
  let ?g = "\<lambda>x. if bid x = bid d then d else x"
  from assms(1) have dx: "distinct xs" and injf: "inj_on f (set xs)"
    by (simp_all add: distinct_map)
  from assms(2) have injb: "inj_on bid (set xs)" by (simp add: distinct_map)
  have "inj_on (\<lambda>x. f (?g x)) (set xs)"
  proof (rule inj_onI)
    fix x y assume x: "x \<in> set xs" and y: "y \<in> set xs" and eq: "f (?g x) = f (?g y)"
    show "x = y"
    proof (cases "bid x = bid d")
      case True
      note bx = True
      show ?thesis
      proof (cases "bid y = bid d")
        case True
        with bx have "bid x = bid y" by simp
        with injb x y show ?thesis by (simp add: inj_on_def)
      next
        case False
        with bx eq have "f y = f d" by simp
        with False assms(3) y show ?thesis by auto
      qed
    next
      case False
      note bx = False
      show ?thesis
      proof (cases "bid y = bid d")
        case True
        with bx eq have "f x = f d" by simp
        with bx assms(3) x show ?thesis by auto
      next
        case False
        with bx eq have "f x = f y" by simp
        with injf x y show ?thesis by (simp add: inj_on_def)
      qed
    qed
  qed
  with dx have "distinct (map (\<lambda>x. f (?g x)) xs)" by (simp add: distinct_map)
  then show ?thesis by (simp add: comp_def)
qed

lemma map_replace_bid: "map bid (map (\<lambda>x. if bid x = bid d then d else x) xs) = map bid xs"
  by (induction xs) auto

lemma find_SomeD: "find P xs = Some x \<Longrightarrow> x \<in> set xs \<and> P x"
  by (auto simp: find_Some_iff)

lemma others_differ:
  assumes "distinct (map f xs)" "a \<in> set xs" "x \<in> set xs" "x \<noteq> a"
  shows "f x \<noteq> f a"
  using assms by (auto simp: distinct_map inj_on_def)

lemma uniqueIndexViolation_None:
  "uniqueIndexViolation bs old doc = None \<longleftrightarrow>
     (modified old doc bookingReference \<longrightarrow>
        (\<forall>x \<in> set bs. bid x \<noteq> bid doc \<longrightarrow> bookingReference x \<noteq> bookingReference doc)) \<and>
     (modified old doc date \<or> modified old doc timeSlot \<longrightarrow>
        (\<forall>x \<in> set bs. bid x \<noteq> bid doc \<longrightarrow> slotKey x \<noteq> slotKey doc))"
  by (auto simp: uniqueIndexViolation_def list_ex_iff slotKey_def)

lemma referenceLoop_form: "\<exists>k. referenceLoop stem bs c = stem @ toString k"
proof (induction stem bs c rule: referenceLoop.induct)
  case (1 stem bs counter)
  show ?case
  proof (cases "find (\<lambda>b. bookingReference b = stem @ toString counter) bs")
    case None
    then show ?thesis by (subst referenceLoop.simps) (auto simp: Let_def)
  next
    case (Some existing)
    show ?thesis
    proof (cases "counter + 1 \<le> 999")
      case True
      with Some "1.IH"[OF refl Some True] show ?thesis
        by (subst referenceLoop.simps) (simp add: Let_def)
    next
      case False
      with Some show ?thesis by (subst referenceLoop.simps) (auto simp: Let_def)
    qed
  qed
qed

lemma generateBookingReference_nonempty: "generateBookingReference e bs \<noteq> []"
  using referenceLoop_form[of "bookingReferencePrefix @ dateStr e @ timeStr e" bs 1]
  by (auto simp: generateBookingReference_def bookingReferencePrefix_def)

lemma save_new_shape:
  assumes "save e s None doc = Inr (b, s')"
  shows "bid b = nextId s \<and> uniqueIndexViolation (bookings s) None b = None \<and>
         s' = s\<lparr>bookings := bookings s @ [b], nextId := Suc (nextId s)\<rparr> \<and>
         date b = date doc \<and> timeSlot b = timeSlot doc \<and> status b = status doc \<and>
         bookingReference b \<noteq> []"
  using assms
  by (auto simp: save_def Let_def generateBookingReference_nonempty split: if_splits option.splits)

lemma save_update_shape:
  assumes "save e s (Some stored) doc = Inr (b, s')"
  shows "bid b = bid doc \<and> uniqueIndexViolation (bookings s) (Some stored) b = None \<and>
         s' = s\<lparr>bookings := map (\<lambda>x. if bid x = bid b then b else x) (bookings s)\<rparr> \<and>
         date b = date doc \<and> timeSlot b = timeSlot doc \<and> status b = status doc \<and>
         customer b = customer doc \<and> bookingReference b \<noteq> []"
  using assms
  by (auto simp: save_def Let_def generateBookingReference_nonempty split: if_splits option.splits)

lemma save_new_inv:
  assumes "storeInv s" "save e s None doc = Inr (b, s')"
  shows "storeInv s'"
proof -
  from save_new_shape[OF assms(2)] have
    b: "bid b = nextId s" "bookingReference b \<noteq> []" and u: "uniqueIndexViolation (bookings s) None b = None"
    and s': "s' = s\<lparr>bookings := bookings s @ [b], nextId := Suc (nextId s)\<rparr>" by auto
  from assms(1) have fresh: "\<forall>x \<in> set (bookings s). bid x \<noteq> bid b"
    using b by (auto simp: storeInv_def)
  with u have "\<forall>x \<in> set (bookings s). bookingReference x \<noteq> bookingReference b"
    and "\<forall>x \<in> set (bookings s). slotKey x \<noteq> slotKey b"
    by (auto simp: uniqueIndexViolation_None modified_def)
  with assms(1) fresh b show ?thesis
    unfolding s' storeInv_def by (auto simp: less_Suc_eq)
qed

lemma save_update_inv:
  assumes "storeInv s" "stored \<in> set (bookings s)" "bid doc = bid stored"
    and "save e s (Some stored) doc = Inr (b, s')"
  shows "storeInv s'"
proof -
  from save_update_shape[OF assms(4)] have
    u: "uniqueIndexViolation (bookings s) (Some stored) b = None" and ne: "bookingReference b \<noteq> []"
    and bb: "bid b = bid stored"
    and s': "s' = s\<lparr>bookings := map (\<lambda>x. if bid x = bid b then b else x) (bookings s)\<rparr>"
    using assms(3) by auto
  from assms(1) have d: "distinct (map bid (bookings s))" "distinct (map slotKey (bookings s))"
    "distinct (map bookingReference (bookings s))"
    and n: "\<forall>x \<in> set (bookings s). bid x < nextId s \<and> bookingReference x \<noteq> []"
    by (auto simp: storeInv_def)
  have other: "\<And>x. x \<in> set (bookings s) \<Longrightarrow> bid x \<noteq> bid b \<Longrightarrow> x \<noteq> stored"
    using bb by auto
  have r: "\<forall>x \<in> set (bookings s). bid x \<noteq> bid b \<longrightarrow> bookingReference x \<noteq> bookingReference b"
  proof (cases "modified (Some stored) b bookingReference")
    case True
    with u show ?thesis by (simp add: uniqueIndexViolation_None)
  next
    case False
    then have "bookingReference b = bookingReference stored" by (simp add: modified_def)
    with others_differ[OF d(3) assms(2)] other show ?thesis by auto
  qed
  have k: "\<forall>x \<in> set (bookings s). bid x \<noteq> bid b \<longrightarrow> slotKey x \<noteq> slotKey b"
  proof (cases "modified (Some stored) b date \<or> modified (Some stored) b timeSlot")
    case True
    with u show ?thesis by (simp add: uniqueIndexViolation_None)
  next
    case False
    then have "slotKey b = slotKey stored" by (simp add: modified_def slotKey_def)
    with others_differ[OF d(2) assms(2)] other show ?thesis by auto
  qed
  have 1: "distinct (map slotKey (bookings s'))"
    unfolding s' using distinct_map_replace[OF d(2) d(1) k] by simp
  have 2: "distinct (map bookingReference (bookings s'))"
    unfolding s' using distinct_map_replace[OF d(3) d(1) r] by simp
  have 3: "distinct (map bid (bookings s'))"
    unfolding s' using d(1) by (simp add: map_replace_bid del: map_map)
  have 4: "\<forall>x \<in> set (bookings s'). bid x < nextId s' \<and> bookingReference x \<noteq> []"
    unfolding s' using n ne bb assms(2) by auto
  from 1 2 3 4 show ?thesis by (simp add: storeInv_def)
qed

lemma createBooking_writes:
  assumes "createBooking e s d t c u = Some (r, s')"
  shows "s' = s \<or> (\<exists>doc b. save e s None doc = Inr (b, s'))"
  using assms
  by (auto simp: createBooking_def split: option.splits if_splits sum.splits prod.splits)

lemma createSimpleBooking_writes:
  assumes "createSimpleBooking e s un em ph nt d t = Some (r, s')"
  shows "s' = s \<or> (\<exists>doc b. save e s None doc = Inr (b, s'))"
  using assms
  by (auto simp: createSimpleBooking_def split: option.splits if_splits sum.splits prod.splits)

lemma updateBooking_writes:
  assumes "updateBooking e s ref c nt = (r, s')"
  shows "s' = s \<or> (\<exists>stored doc b. stored \<in> set (bookings s) \<and> bid doc = bid stored \<and>
                    save e s (Some stored) doc = Inr (b, s'))"
  using assms
  by (fastforce simp: updateBooking_def split: option.splits if_splits sum.splits prod.splits
      dest: find_SomeD)

lemma cancelBooking_writes:
  assumes "cancelBooking e s ref reason = (r, s')"
  shows "s' = s \<or> (\<exists>stored doc b. stored \<in> set (bookings s) \<and> bid doc = bid stored \<and>
                    save e s (Some stored) doc = Inr (b, s'))"
  using assms
  by (fastforce simp: cancelBooking_def booking_cancel_def split: option.splits if_splits sum.splits prod.splits
      dest: find_SomeD)

lemma rescheduleBooking_writes:
  assumes "rescheduleBooking e s ref nd nt reason = Some (r, s')"
  shows "s' = s \<or> (\<exists>stored doc b. stored \<in> set (bookings s) \<and> bid doc = bid stored \<and>
                    save e s (Some stored) doc = Inr (b, s'))"
  using assms
  by (fastforce simp: rescheduleBooking_def Let_def split: option.splits if_splits sum.splits prod.splits
      dest: find_SomeD)

lemma checkInBooking_writes:
  assumes "checkInBooking e s ref = (r, s')"
  shows "s' = s \<or> (\<exists>stored doc b. stored \<in> set (bookings s) \<and> bid doc = bid stored \<and>
                    save e s (Some stored) doc = Inr (b, s'))"
  using assms
  by (fastforce simp: checkInBooking_def booking_checkIn_def split: option.splits if_splits sum.splits prod.splits
      dest: find_SomeD)

lemma updateBookingStatus_writes:
  assumes "updateBookingStatus e s i st reason = (r, s')"
  shows "s' = s \<or> (\<exists>stored doc b. stored \<in> set (bookings s) \<and> bid doc = bid stored \<and>
                    save e s (Some stored) doc = Inr (b, s'))"
  using assms
  by (fastforce simp: updateBookingStatus_def Let_def split: option.splits if_splits sum.splits prod.splits
      dest: find_SomeD)

lemma deleteBooking_writes:
  assumes "deleteBooking e s i reason = (r, s')"
  shows "s' = s \<or> (\<exists>stored doc b. stored \<in> set (bookings s) \<and> bid doc = bid stored \<and>
                    save e s (Some stored) doc = Inr (b, s'))"
  using assms
  by (fastforce simp: deleteBooking_def split: option.splits if_splits sum.splits prod.splits
      dest: find_SomeD)

lemma updateData_keeps:
  "bid (updateData e a st reason b) = bid b \<and> slotKey (updateData e a st reason b) = slotKey b \<and>
   bookingReference (updateData e a st reason b) = bookingReference b"
  by (simp add: updateData_def slotKey_def split: option.splits)

lemma map_map_keeps: "(\<And>x. f (g x) = f x) \<Longrightarrow> map f (map g xs) = map f xs"
  by (induction xs) auto

lemma bulkUpdateBookings_inv:
  assumes "storeInv s" "bulkUpdateBookings e s ids a st reason = (r, s')"
  shows "storeInv s'"
proof -
  let ?upd = "\<lambda>b. (updateData e a st reason b)\<lparr>updatedAt := now e\<rparr>"
  let ?g = "\<lambda>b. if bid b \<in> set ids then ?upd b else b"
  have k: "\<And>b. bid (?g b) = bid b \<and> slotKey (?g b) = slotKey b \<and> bookingReference (?g b) = bookingReference b"
    using updateData_keeps by (simp add: slotKey_def)
  have m: "map bid (map ?g (bookings s)) = map bid (bookings s)"
    "map slotKey (map ?g (bookings s)) = map slotKey (bookings s)"
    "map bookingReference (map ?g (bookings s)) = map bookingReference (bookings s)"
    using k by (intro map_map_keeps; simp)+
  from assms(2) have "s' = s \<or> s' = s\<lparr>bookings := map ?g (bookings s)\<rparr>"
    by (auto simp: bulkUpdateBookings_def Let_def split: if_splits)
  then show ?thesis
  proof
    assume "s' = s" with assms(1) show ?thesis by simp
  next
    assume s': "s' = s\<lparr>bookings := map ?g (bookings s)\<rparr>"
    have "\<forall>x \<in> set (map ?g (bookings s)). bid x < nextId s \<and> bookingReference x \<noteq> []"
      using assms(1) by (auto simp: storeInv_def updateData_keeps)
    with assms(1) m show ?thesis unfolding s' storeInv_def by (simp del: map_map)
  qed
qed

lemma saveAvailableDate_bookings:
  assumes "saveAvailableDate s old doc = Inr (a, s')"
  shows "bookings s' = bookings s \<and> nextId s \<le> nextId s'"
  using assms
  by (auto simp: saveAvailableDate_def Let_def split: option.splits if_splits)

lemma bulkLoop_bookings:
  "bulkLoop s created errors dates = (res, s') \<Longrightarrow> bookings s' = bookings s \<and> nextId s \<le> nextId s'"
proof (induction s created errors dates rule: bulkLoop.induct)
  case (1 s created errors)
  then show ?case by simp
next
  case (2 s created errors dateConfig rest)
  let ?doc = "newAvailableDate dateConfig"
  show ?case
  proof (cases "saveAvailableDate s None ?doc")
    case (Inl err)
    with "2.prems" have "bulkLoop s created (errors @ [(dc_date dateConfig, err)]) rest = (res, s')"
      by simp
    with "2.IH"(1)[OF Inl] show ?thesis by simp
  next
    case (Inr p)
    obtain a s1 where p: "p = (a, s1)" by (cases p)
    with Inr "2.prems" have "bulkLoop s1 (created @ [a]) errors rest = (res, s')" by simp
    with "2.IH"(2)[OF Inr p[symmetric]] have "bookings s' = bookings s1 \<and> nextId s1 \<le> nextId s'"
      by simp
    moreover from saveAvailableDate_bookings[OF Inr[unfolded p]]
    have "bookings s1 = bookings s \<and> nextId s \<le> nextId s1" .
    ultimately show ?thesis by simp
  qed
qed

lemma availability_handlers_bookings:
  "createAvailableDate e s d st en du nt = (r, s') \<Longrightarrow> bookings s' = bookings s \<and> nextId s \<le> nextId s'"
  "createBulkAvailableDates s dates sk = (r, s') \<Longrightarrow> bookings s' = bookings s \<and> nextId s \<le> nextId s'"
  "updateAvailableDate e s i sto eno duo ac nto = (r, s') \<Longrightarrow> bookings s' = bookings s \<and> nextId s \<le> nextId s'"
  "deleteAvailableDate s i = (r, s') \<Longrightarrow> bookings s' = bookings s \<and> nextId s \<le> nextId s'"
  by (auto simp: createAvailableDate_def createBulkAvailableDates_def updateAvailableDate_def
        deleteAvailableDate_def Let_def
      split: option.splits if_splits sum.splits prod.splits
      dest!: saveAvailableDate_bookings bulkLoop_bookings)

lemma storeInv_same_bookings:
  "storeInv s \<Longrightarrow> bookings s' = bookings s \<Longrightarrow> nextId s \<le> nextId s' \<Longrightarrow> storeInv s'"
  by (auto simp: storeInv_def)

lemma handle_inv:
  assumes "storeInv s" "handle e s r = Some (resp, s')"
  shows "storeInv s'"
proof (cases r)
  case (CreateBooking d t c u)
  with assms(2) createBooking_writes[of e s d t c u resp s'] assms(1) save_new_inv
  show ?thesis by auto
next
  case (CreateSimpleBooking un em ph nt d t)
  with assms(2) createSimpleBooking_writes[of e s un em ph nt d t resp s'] assms(1) save_new_inv
  show ?thesis by auto
next
  case (UpdateBooking ref c nt)
  with assms(2) updateBooking_writes[of e s ref c nt resp s'] assms(1) save_update_inv
  show ?thesis by auto
next
  case (CancelBooking ref reason)
  with assms(2) cancelBooking_writes[of e s ref reason resp s'] assms(1) save_update_inv
  show ?thesis by auto
next
  case (RescheduleBooking ref nd nt reason)
  with assms(2) rescheduleBooking_writes[of e s ref nd nt reason resp s'] assms(1) save_update_inv
  show ?thesis by auto
next
  case (CheckInBooking ref)
  with assms(2) checkInBooking_writes[of e s ref resp s'] assms(1) save_update_inv
  show ?thesis by auto
next
  case (UpdateBookingStatus i st reason)
  with assms(2) updateBookingStatus_writes[of e s i st reason resp s'] assms(1) save_update_inv
  show ?thesis by auto
next
  case (DeleteBooking i reason)
  with assms(2) deleteBooking_writes[of e s i reason resp s'] assms(1) save_update_inv
  show ?thesis by auto
next
  case (BulkUpdateBookings ids a st reason)
  with assms bulkUpdateBookings_inv show ?thesis by auto
next
  case (CreateAvailableDate d st en du nt)
  with assms availability_handlers_bookings(1) storeInv_same_bookings show ?thesis by fastforce
next
  case (CreateBulkAvailableDates dates sk)
  with assms availability_handlers_bookings(2) storeInv_same_bookings show ?thesis by fastforce
next
  case (UpdateAvailableDate i sto eno duo ac nto)
  with assms availability_handlers_bookings(3) storeInv_same_bookings show ?thesis by fastforce
next
  case (DeleteAvailableDate i)
  with assms availability_handlers_bookings(4) storeInv_same_bookings show ?thesis by fastforce
qed

lemma reachable_inv: "reachable s \<Longrightarrow> storeInv s"
proof (induction rule: reachable.induct)
  case initial
  show ?case by (simp add: storeInv_def emptyStore_def)
next
  case (request s e r resp s')
  then show ?case using handle_inv by blast
qed

lemma at_most_one_per_key:
  assumes "distinct (map f xs)"
  shows "length (filter (\<lambda>x. f x = k \<and> P x) xs) \<le> 1"
  using assms
proof (induction xs)
  case Nil
  then show ?case by simp
next
  case (Cons a xs)
  show ?case
  proof (cases "f a = k")
    case True
    from Cons.prems have "f a \<notin> f ` set xs" by simp
    with True have "\<forall>x \<in> set xs. f x \<noteq> k" by blast
    then have "filter (\<lambda>x. f x = k \<and> P x) xs = []" by (auto simp: filter_empty_conv)
    then show ?thesis by simp
  next
    case False
    with Cons show ?thesis by simp
  qed
qed

text \<open>
  Claim C1. In every store the service can reach from the empty one by its write
  operations (creation, customer update, cancellation, reschedule, check-in, the admin
  status update and deletion, the bulk status update, and the operations on available
  dates), a \<open>(date, timeSlot)\<close> pair has at most one booking whose status is not
  \<open>cancelled\<close>.
\<close>

theorem one_open_booking_per_slot:
  assumes "reachable s"
  shows "length (openBookingsAt s d t) \<le> 1"
proof -
  from reachable_inv[OF assms] have "distinct (map slotKey (bookings s))"
    by (simp add: storeInv_def)
  from at_most_one_per_key[OF this, of "(d, t)" "\<lambda>b. status b \<noteq> ''cancelled''"]
  show ?thesis by (simp add: openBookingsAt_def slotKey_def conj_ac)
qed

section \<open>The example scenario, evaluated\<close>

text \<open>
  An administrator opens 2025-09-26 from 09:00 to 17:00 in 30-minute slots; Alice books
  10:00 and cancels; Bob then asks for the same slot.
\<close>

lemma window1_slots:
  "availableDate_generateTimeSlots window1 =
     Some [''09:00'', ''09:30'', ''10:00'', ''10:30'', ''11:00'', ''11:30'', ''12:00'', ''12:30'',
           ''13:00'', ''13:30'', ''14:00'', ''14:30'', ''15:00'', ''15:30'', ''16:00'', ''16:30'']"
  by (simp add: availableDate_generateTimeSlots_def window1_def slotLoop.simps time_eval)

lemma window1_valid_1000: "isValidTimeSlot window1 ''10:00'' = Some True"
  by (simp add: isValidTimeSlot_def window1_slots)

lemma env_fields:
  "today exampleEnv = ''2025-09-25''" "currentTime exampleEnv = ''14:30''"
  "maxDate exampleEnv = ''2026-09-25''" "now exampleEnv = 1758810600000"
  "dateStr exampleEnv = ''20250925''" "timeStr exampleEnv = ''1430''"
  "dateTime exampleEnv = (\<lambda>d t. if d = ''2025-09-26'' \<and> t = ''10:00'' then Some 1758880800000 else None)"
  "production exampleEnv = False" "emailMatches exampleEnv = (\<lambda>x. True)"
  "validateCustomer exampleEnv = Some" "validateEmail exampleEnv = Some"
  "validatePhone exampleEnv = Some" "validateNotes exampleEnv = Inr"
  by (simp_all add: exampleEnv_def)

lemma store_fields:
  "bookings emptyStore = []" "availableDates emptyStore = []" "nextId emptyStore = 0"
  "bookings store1 = []" "availableDates store1 = [window1]" "nextId store1 = 1"
  "bookings store2 = [bookingA]" "availableDates store2 = [window1]" "nextId store2 = 2"
  "bookings store3 = [bookingA\<lparr>status := ''cancelled'', cancelledAt := Some 1758810600000\<rparr>]"
  "availableDates store3 = [window1]" "nextId store3 = 2"
  by (simp_all add: emptyStore_def store1_def store2_def store3_def)

lemma window1_fields:
  "aid window1 = 0" "adate window1 = ''2025-09-26''" "startTime window1 = ''09:00''"
  "endTime window1 = ''17:00''" "slotDuration window1 = 30" "isActive window1 = True"
  "anotes window1 = []"
  by (simp_all add: window1_def)

lemma bookingA_fields:
  "bid bookingA = 1" "date bookingA = ''2025-09-26''" "timeSlot bookingA = ''10:00''"
  "customer bookingA = alice" "status bookingA = ''confirmed''"
  "bookingReference bookingA = ''SM2025092514301''" "cancellationReason bookingA = None"
  by (simp_all add: bookingA_def)

lemma E1:
  "createAvailableDate exampleEnv emptyStore ''2025-09-26'' ''09:00'' ''17:00'' (Some 30) None =
     (Success 201 ''Available date created successfully'' (AvailableDateData window1), store1)"
  by (simp add: createAvailableDate_def emptyStore_def saveAvailableDate_def Let_def
      validateAvailableDate_def isDigit_def digitVal_def
      durationOrDefault_def availableDatePreSave_def toMinutes_def Number_def window1_def store1_def)

lemma ref1: "referenceLoop ''SM202509251430'' [] (Suc 0) = ''SM2025092514301''"
  by (simp add: referenceLoop.simps toString.simps digitChar_def)

lemma alice_setters: "customerSetters alice = alice"
  by (simp add: customerSetters_def alice_def trim_def isSpace_def toLowerCase_def toLowerChar_def)

lemma bob_setters: "customerSetters bob = bob"
  by (simp add: customerSetters_def bob_def trim_def isSpace_def toLowerCase_def toLowerChar_def)

lemma customer_valid:
  "2 \<le> length (cname alice)" "length (cname alice) \<le> 100" "matchesPhone (cphone alice)"
  "length (cnotes alice) \<le> 1000"
  "2 \<le> length (cname bob)" "length (cname bob) \<le> 100" "matchesPhone (cphone bob)"
  "length (cnotes bob) \<le> 1000"
  by (simp_all add: alice_def bob_def matchesPhone_def isDigit_def digitVal_def)

lemma save_A:
  "save exampleEnv store1 None (newBooking ''2025-09-26'' ''10:00'' alice ''confirmed'' ''online'' None)
     = Inr (bookingA, store2)"
proof -
  have v: "validateBooking exampleEnv
             (newBooking ''2025-09-26'' ''10:00'' alice ''confirmed'' ''online'' None\<lparr>bid := 1, createdAt := 1758810600000\<rparr>)"
    by (simp add: validateBooking_def newBooking_def alice_setters
        isDigit_def digitVal_def customer_valid env_fields)
  then show ?thesis
    by (simp add: save_def Let_def env_fields store_fields generateBookingReference_def
        bookingReferencePrefix_def ref1 modified_def uniqueIndexViolation_def)
       (simp add: newBooking_def alice_setters bookingA_def store2_def store1_def)
qed

lemma E2:
  "createBooking exampleEnv store1 ''2025-09-26'' ''10:00'' alice None =
     Some (Success 201 ''Booking created successfully'' (BookingData bookingA), store2)"
  by (simp add: createBooking_def env_fields store_fields window1_fields isPastDate_def
      isPastTimeSlot_def isToday_def isWithinBookingLimit_def window1_valid_1000 save_A)


lemma reachable_store1: "reachable store1"
proof -
  have "handle exampleEnv emptyStore (CreateAvailableDate ''2025-09-26'' ''09:00'' ''17:00'' (Some 30) None)
        = Some (Success 201 ''Available date created successfully'' (AvailableDateData window1), store1)"
    by (simp add: E1)
  from reachable.request[OF reachable.initial this] show ?thesis .
qed

lemma reachable_store2: "reachable store2"
proof -
  have "handle exampleEnv store1 (CreateBooking ''2025-09-26'' ''10:00'' alice None)
        = Some (Success 201 ''Booking created successfully'' (BookingData bookingA), store2)"
    by (simp add: E2)
  from reachable.request[OF reachable_store1 this] show ?thesis .
qed

lemma not_within_two_hours: "\<not> withinTwoHours exampleEnv bookingA"
  by (simp add: withinTwoHours_def env_fields bookingA_fields)

lemma save_cancel_A:
  "save exampleEnv store2 (Some bookingA)
     (bookingA\<lparr>status := ''cancelled'', cancelledAt := Some 1758810600000, cancellationReason := None\<rparr>)
   = Inr (bookingA\<lparr>status := ''cancelled'', cancelledAt := Some 1758810600000\<rparr>, store3)"
proof -
  have v: "validateBooking exampleEnv bookingA"
    by (simp add: validateBooking_def bookingA_fields isDigit_def digitVal_def customer_valid env_fields)
       (simp add: bookingA_def)
  have v': "validateBooking exampleEnv
     (bookingA\<lparr>status := ''cancelled'', cancelledAt := Some 1758810600000, cancellationReason := None\<rparr>)"
    using v by (simp add: validateBooking_def)
  have n: "bookingA \<noteq> bookingA\<lparr>status := ''cancelled'', cancelledAt := Some 1758810600000,
             cancellationReason := None\<rparr>"
    by (simp add: bookingA_def)
  show ?thesis
    using v' n
    by (simp add: save_def Let_def modified_def bookingA_fields uniqueIndexViolation_def
        store_fields env_fields)
       (simp add: bookingA_def store2_def store3_def)
qed

lemma E3:
  "cancelBooking exampleEnv store2 ''SM2025092514301'' None =
     (Success 200 ''Booking cancelled successfully''
        (BookingData (bookingA\<lparr>status := ''cancelled'', cancelledAt := Some 1758810600000\<rparr>)), store3)"
  by (simp add: cancelBooking_def store_fields bookingA_fields not_within_two_hours
      booking_cancel_def truthy_def env_fields save_cancel_A)

lemma ref2:
  "referenceLoop ''SM202509251430'' [bookingA\<lparr>status := ''cancelled'', cancelledAt := Some 1758810600000\<rparr>] (Suc 0)
     = ''SM2025092514302''"
  by (simp add: referenceLoop.simps[of _ _ "Suc 0"] referenceLoop.simps[of _ _ "Suc (Suc 0)"]
        toString.simps digitChar_def bookingA_fields)

lemma save_B:
  "save exampleEnv store3 None (newBooking ''2025-09-26'' ''10:00'' bob ''confirmed'' ''online'' None)
     = Inl (DuplicateKey [''date'', ''timeSlot''])"
proof -
  have v: "validateBooking exampleEnv
             (newBooking ''2025-09-26'' ''10:00'' bob ''confirmed'' ''online'' None\<lparr>bid := 2, createdAt := 1758810600000\<rparr>)"
    by (simp add: validateBooking_def newBooking_def bob_setters
        isDigit_def digitVal_def customer_valid env_fields)
  then show ?thesis
    by (simp add: save_def Let_def env_fields store_fields generateBookingReference_def
        bookingReferencePrefix_def ref2 modified_def uniqueIndexViolation_def bookingA_fields)
       (simp add: newBooking_def bookingA_fields)
qed

lemma E4:
  "createBooking exampleEnv store3 ''2025-09-26'' ''10:00'' bob None =
     Some (Error 400 ''This time slot is already booked'', store3)"
  by (simp add: createBooking_def env_fields store_fields window1_fields isPastDate_def
      isPastTimeSlot_def isToday_def isWithinBookingLimit_def window1_valid_1000 save_B bookingA_fields)

theorem one_open_booking_per_slot_witness:
  "reachable store2 \<and> length (openBookingsAt store2 ''2025-09-26'' ''10:00'') \<le> 1"
  using reachable_store2 one_open_booking_per_slot [OF reachable_store2, of "''2025-09-26''" "''10:00''"]
  by simp

text \<open>
  Claim C2. The claim says that after booking A at a slot is created and cancelled, a
  create of booking B at the same slot succeeds. In the scenario the first create and
  the cancellation succeed, and the second create passes both application checks and is
  then rejected by the unique index on \<open>(date, timeSlot)\<close>, which still holds the
  cancelled row: the response is the duplicate-key answer of the error handler.
\<close>

theorem rebooking_cancelled_slot_fails:
  "createBooking exampleEnv store1 ''2025-09-26'' ''10:00'' alice None =
     Some (Success 201 ''Booking created successfully'' (BookingData bookingA), store2) \<and>
   cancelBooking exampleEnv store2 ''SM2025092514301'' None =
     (Success 200 ''Booking cancelled successfully''
        (BookingData (bookingA\<lparr>status := ''cancelled'', cancelledAt := Some 1758810600000\<rparr>)), store3) \<and>
   createBooking exampleEnv store3 ''2025-09-26'' ''10:00'' bob None =
     Some (Error 400 ''This time slot is already booked'', store3)"
  by (simp add: E2 E3 E4)

section \<open>Creating a booking\<close>

lemma errorHandler_Error: "\<exists>code msg. errorHandler e err = Error code msg"
  by (cases err) (simp_all add: Let_def)

lemma errorHandler_not_Success [simp]: "errorHandler e err \<noteq> Success code msg dat"
  using errorHandler_Error[of e err] by auto

lemma createBooking_success:
  assumes "createBooking e s d t c u = Some (Success code msg dat, s')"
  shows "\<exists>v w b. validateCustomer e c = Some v \<and>
           find (\<lambda>a. adate a = d \<and> isActive a) (availableDates s) = Some w \<and>
           isValidTimeSlot w t = Some True \<and>
           save e s None (newBooking d t v ''confirmed'' ''online'' u) = Inr (b, s')"
  using assms
  by (auto simp: createBooking_def split: option.splits if_splits sum.splits prod.splits)

lemma find_append_Some:
  "P b \<Longrightarrow> find P (xs @ [b]) \<noteq> None"
  by (auto simp: find_None_iff)

lemma envAtSlot_fields:
  "today envAtSlot = ''2025-09-26''" "currentTime envAtSlot = ''10:00''"
  "maxDate envAtSlot = ''2026-09-25''" "validateCustomer envAtSlot = Some"
  by (simp_all add: envAtSlot_def exampleEnv_def)

text \<open>
  Claim C3, amended. After a successful create at \<open>(date, timeSlot)\<close>, a second create for
  the same \<open>(date, timeSlot)\<close>, with any customer and at any time, fails and leaves the
  store unchanged. The answer is that of the first check of \<open>createBooking\<close> the second
  request fails: a refused customer, a date in the past, a time slot in the past, a date
  beyond the advance-booking horizon are each answered with a ValidationError, HTTP status
  400; a request that passes these four checks is answered with the Conflict error, HTTP
  status 409.
\<close>

theorem second_create_conflicts:
  assumes "createBooking e s d t c u = Some (Success code msg dat, s')"
  shows "(\<exists>code' msg'. createBooking e' s' d t c' u' = Some (Error code' msg', s')) \<and>
         (validateCustomer e' c' = None \<longrightarrow>
            createBooking e' s' d t c' u' = Some (Error 400 ''Customer validation failed'', s')) \<and>
         (validateCustomer e' c' \<noteq> None \<and> isPastDate e' d \<longrightarrow>
            createBooking e' s' d t c' u' = Some (Error 400 ''Cannot book dates in the past'', s')) \<and>
         (validateCustomer e' c' \<noteq> None \<and> \<not> isPastDate e' d \<and> isPastTimeSlot e' d t \<longrightarrow>
            createBooking e' s' d t c' u' = Some (Error 400 ''Cannot book past time slots'', s')) \<and>
         (validateCustomer e' c' \<noteq> None \<and> \<not> isPastDate e' d \<and> \<not> isPastTimeSlot e' d t \<and>
          \<not> isWithinBookingLimit e' d \<longrightarrow>
            createBooking e' s' d t c' u' =
              Some (Error 400 ''Date is beyond the maximum advance booking period'', s')) \<and>
         (validateCustomer e' c' \<noteq> None \<and> \<not> isPastDate e' d \<and> \<not> isPastTimeSlot e' d t \<and>
          isWithinBookingLimit e' d \<longrightarrow>
            createBooking e' s' d t c' u' = Some (Error 409 ''This time slot is already booked'', s'))"
proof -
  from createBooking_success[OF assms] obtain v w b where
    w: "find (\<lambda>a. adate a = d \<and> isActive a) (availableDates s) = Some w"
    and valid: "isValidTimeSlot w t = Some True"
    and sv: "save e s None (newBooking d t v ''confirmed'' ''online'' u) = Inr (b, s')" by blast
  from save_new_shape[OF sv] have
    s': "s' = s\<lparr>bookings := bookings s @ [b], nextId := Suc (nextId s)\<rparr>"
    and b: "date b = d" "timeSlot b = t" "status b = ''confirmed''"
    by (auto simp: newBooking_def)
  have ad: "availableDates s' = availableDates s" by (simp add: s')
  have "find (\<lambda>x. date x = d \<and> timeSlot x = t \<and> status x \<noteq> ''cancelled'') (bookings s') \<noteq> None"
    unfolding s' using b by (simp add: find_append_Some)
  then obtain x where x: "find (\<lambda>x. date x = d \<and> timeSlot x = t \<and> status x \<noteq> ''cancelled'') (bookings s') = Some x"
    by auto
  show ?thesis
    by (auto simp: createBooking_def ad w valid x split: option.splits)
qed

theorem second_create_conflicts_witness:
  "createBooking exampleEnv store1 ''2025-09-26'' ''10:00'' alice None =
     Some (Success 201 ''Booking created successfully'' (BookingData bookingA), store2) \<and>
   createBooking exampleEnv store2 ''2025-09-26'' ''10:00'' bob None =
     Some (Error 409 ''This time slot is already booked'', store2) \<and>
   createBooking envAtSlot store2 ''2025-09-26'' ''10:00'' bob None =
     Some (Error 400 ''Cannot book past time slots'', store2)"
  using E2 second_create_conflicts [OF E2, of exampleEnv bob None]
    second_create_conflicts [OF E2, of envAtSlot bob None]
  by (simp add: env_fields envAtSlot_fields isPastDate_def isPastTimeSlot_def isToday_def isWithinBookingLimit_def)

text \<open>
  The claim as stated promises the Conflict error for every second create. Once the start
  of the booked slot is reached, a second create for it is refused as a past time slot,
  with status 400.
\<close>

theorem second_create_past_slot_rejected:
  "createBooking exampleEnv store1 ''2025-09-26'' ''10:00'' alice None =
     Some (Success 201 ''Booking created successfully'' (BookingData bookingA), store2) \<and>
   createBooking envAtSlot store2 ''2025-09-26'' ''10:00'' bob None =
     Some (Error 400 ''Cannot book past time slots'', store2)"
proof -
  have "createBooking envAtSlot store2 ''2025-09-26'' ''10:00'' bob None =
     Some (Error 400 ''Cannot book past time slots'', store2)"
    by (simp add: createBooking_def envAtSlot_fields isPastDate_def isPastTimeSlot_def isToday_def)
  with E2 show ?thesis by simp
qed

text \<open>
  Claim C9, amended. A create is rejected with a ValidationError (HTTP status 400), and
  the store is unchanged, for every date strictly before the current date whatever the
  time of day, for every date beyond the advance-booking horizon, and, when the date is
  today, for every time slot at or before the current time of day; when the date is today,
  a time slot strictly after the current time of day passes the time-slot check.
\<close>

theorem past_or_far_dates_rejected:
  "((d < today e \<or> maxDate e < d \<or> (d = today e \<and> t \<le> currentTime e)) \<longrightarrow>
      (\<exists>msg. createBooking e s d t c u = Some (Error 400 msg, s))) \<and>
   (validateCustomer e c \<noteq> None \<and> d < today e \<longrightarrow>
      createBooking e s d t c u = Some (Error 400 ''Cannot book dates in the past'', s)) \<and>
   (validateCustomer e c \<noteq> None \<and> d = today e \<and> t \<le> currentTime e \<longrightarrow>
      createBooking e s d t c u = Some (Error 400 ''Cannot book past time slots'', s)) \<and>
   (validateCustomer e c \<noteq> None \<and> today e < d \<and> maxDate e < d \<longrightarrow>
      createBooking e s d t c u = Some (Error 400 ''Date is beyond the maximum advance booking period'', s)) \<and>
   (d = today e \<and> currentTime e < t \<longrightarrow> \<not> isPastTimeSlot e d t)"
  by (auto simp: createBooking_def isPastDate_def isPastTimeSlot_def isToday_def
        isWithinBookingLimit_def split: option.splits)

theorem past_or_far_dates_rejected_witness:
  "''2025-09-24'' < today exampleEnv \<and>
   createBooking exampleEnv store1 ''2025-09-24'' ''10:00'' alice None =
     Some (Error 400 ''Cannot book dates in the past'', store1) \<and>
   ''2025-09-25'' = today exampleEnv \<and> ''10:00'' \<le> currentTime exampleEnv \<and>
   createBooking exampleEnv store1 ''2025-09-25'' ''10:00'' alice None =
     Some (Error 400 ''Cannot book past time slots'', store1) \<and>
   today exampleEnv < ''2026-09-26'' \<and> maxDate exampleEnv < ''2026-09-26'' \<and>
   createBooking exampleEnv store1 ''2026-09-26'' ''10:00'' alice None =
     Some (Error 400 ''Date is beyond the maximum advance booking period'', store1) \<and>
   currentTime exampleEnv < ''15:00'' \<and> \<not> isPastTimeSlot exampleEnv ''2025-09-25'' ''15:00''"
  using past_or_far_dates_rejected [of "''2025-09-24''" exampleEnv "''10:00''" store1 alice None]
    past_or_far_dates_rejected [of "''2025-09-25''" exampleEnv "''10:00''" store1 alice None]
    past_or_far_dates_rejected [of "''2026-09-26''" exampleEnv "''10:00''" store1 alice None]
    past_or_far_dates_rejected [of "''2025-09-25''" exampleEnv "''15:00''" store1 alice None]
  by (simp add: env_fields)

text \<open>
  The claim as stated lets a slot equal to the current time of day pass; the source
  compares with \<open><=\<close>, and such a request is rejected.
\<close>

theorem slot_at_current_time_rejected:
  "today envAtSlot = ''2025-09-26'' \<and> currentTime envAtSlot = ''10:00'' \<and>
   isPastTimeSlot envAtSlot ''2025-09-26'' ''10:00'' \<and>
   createBooking envAtSlot store1 ''2025-09-26'' ''10:00'' alice None =
     Some (Error 400 ''Cannot book past time slots'', store1)"
  by (simp add: createBooking_def envAtSlot_fields isPastDate_def isPastTimeSlot_def isToday_def)

section \<open>Updating a stored booking in place\<close>

lemma save_update_ok:
  assumes same: "bid doc = bid a" "date doc = date a" "timeSlot doc = timeSlot a"
      "bookingReference doc = bookingReference a"
    and ne: "bookingReference a \<noteq> []"
    and valid: "validateBooking e doc"
  shows "save e s (Some a) doc =
           Inr (if doc = a then a else doc\<lparr>updatedAt := now e\<rparr>,
                s\<lparr>bookings := map (\<lambda>x. if bid x = bid a
                                        then (if doc = a then a else doc\<lparr>updatedAt := now e\<rparr>) else x)
                                  (bookings s)\<rparr>)"
proof (cases "doc = a")
  case True
  have v: "validateBooking e a" using valid unfolding True .
  show ?thesis
    unfolding True using v ne
    by (simp add: save_def Let_def modified_def uniqueIndexViolation_def)
next
  case False
  then have n: "a \<noteq> doc" by simp
  show ?thesis
    using valid ne same False n
    by (simp add: save_def Let_def modified_def uniqueIndexViolation_def)
qed

lemma replaced_member:
  "a \<in> set xs \<Longrightarrow> bid d = bid a \<Longrightarrow> d \<in> set (map (\<lambda>x. if bid x = bid a then d else x) xs)"
  by (induction xs) auto

lemma find_A: "find (\<lambda>b. bookingReference b = ''SM2025092514301'') (bookings store2) = Some bookingA"
  by (simp add: store_fields bookingA_fields)

lemma find_A_cancelled:
  "find (\<lambda>b. bookingReference b = ''SM2025092514301'') (bookings store3) =
     Some (bookingA\<lparr>status := ''cancelled'', cancelledAt := Some 1758810600000\<rparr>)"
  by (simp add: store_fields bookingA_fields)

lemma envHourBefore_fields:
  "now envHourBefore = 1758877200000"
  "dateTime envHourBefore ''2025-09-26'' ''10:00'' = Some 1758880800000"
  by (simp_all add: envHourBefore_def exampleEnv_def)

section \<open>Cancellation\<close>

lemma withinTwoHours_iff:
  "withinTwoHours e a =
     (\<exists>at. dateTime e (date a) (timeSlot a) = Some at \<and> now e < at \<and> at - now e < 2 * 3600000)"
  by (auto simp: withinTwoHours_def split: option.splits)

text \<open>
  Claim C7, amended. For a booking found by its reference, \<open>cancelBooking\<close> fails with
  InvalidState (status 400, the store unchanged) when the status is \<open>cancelled\<close> or
  \<open>completed\<close>; otherwise it is refused with TooLateToCancel (status 400, the store
  unchanged) when the booking's date-time is still ahead and strictly fewer than 2 hours
  remain, which is what \<open>withinTwoHours\<close> computes (a date-time that is no valid date is
  never within two hours). In every other case the booking with the status \<open>cancelled\<close>,
  \<open>cancelledAt\<close> stamped with the current time and the given reason (a non-empty string)
  stored goes through the schema validation of \<open>save\<close>. When it passes, as it does
  whenever the stored booking satisfies the validators and a given reason has at most 500
  characters, and the reference is not the empty string, the request succeeds and the
  store holds the booking so changed. When it does not pass, as for every reason of more
  than 500 characters, the request is rejected with a ValidationError (status 400) and the
  store stays as it was.
\<close>

theorem cancel_outcomes:
  assumes "find (\<lambda>b. bookingReference b = ref) (bookings s) = Some a"
  shows
    "(status a = ''cancelled'' \<longrightarrow>
        cancelBooking e s ref reason = (Error 400 ''Booking is already cancelled'', s)) \<and>
     (status a = ''completed'' \<longrightarrow>
        cancelBooking e s ref reason = (Error 400 ''Cannot cancel completed booking'', s)) \<and>
     (withinTwoHours e a =
        (\<exists>at. dateTime e (date a) (timeSlot a) = Some at \<and> now e < at \<and> at - now e < 2 * 3600000)) \<and>
     (status a \<noteq> ''cancelled'' \<and> status a \<noteq> ''completed'' \<and> withinTwoHours e a \<longrightarrow>
        cancelBooking e s ref reason =
          (Error 400 ''Cannot cancel booking within 2 hours of appointment time'', s)) \<and>
     (status a \<noteq> ''cancelled'' \<and> status a \<noteq> ''completed'' \<and> \<not> withinTwoHours e a \<and> ref \<noteq> [] \<and>
      validateBooking e
        (a\<lparr>status := ''cancelled'', cancelledAt := Some (now e),
           cancellationReason := (if truthy reason then reason else cancellationReason a)\<rparr>) \<longrightarrow>
        (\<exists>b' s'. cancelBooking e s ref reason =
                    (Success 200 ''Booking cancelled successfully'' (BookingData b'), s') \<and>
                 b' \<in> set (bookings s') \<and> bid b' = bid a \<and>
                 bookingReference b' = bookingReference a \<and>
                 status b' = ''cancelled'' \<and> cancelledAt b' = Some (now e) \<and>
                 cancellationReason b' = (if truthy reason then reason else cancellationReason a))) \<and>
     (status a \<noteq> ''cancelled'' \<and> status a \<noteq> ''completed'' \<and> \<not> withinTwoHours e a \<and>
      \<not> validateBooking e
        (a\<lparr>status := ''cancelled'', cancelledAt := Some (now e),
           cancellationReason := (if truthy reason then reason else cancellationReason a)\<rparr>) \<longrightarrow>
        cancelBooking e s ref reason = (Error 400 ''Validation Error'', s)) \<and>
     (validateBooking e a \<and> (case reason of None \<Rightarrow> True | Some r \<Rightarrow> length r \<le> 500) \<longrightarrow>
        validateBooking e
          (a\<lparr>status := ''cancelled'', cancelledAt := Some (now e),
             cancellationReason := (if truthy reason then reason else cancellationReason a)\<rparr>)) \<and>
     (reason = Some r \<and> 500 < length r \<longrightarrow>
        \<not> validateBooking e
          (a\<lparr>status := ''cancelled'', cancelledAt := Some (now e),
             cancellationReason := (if truthy reason then reason else cancellationReason a)\<rparr>))"
proof (intro conjI impI)
  assume "status a = ''cancelled''"
  with assms show "cancelBooking e s ref reason = (Error 400 ''Booking is already cancelled'', s)"
    by (simp add: cancelBooking_def)
next
  assume "status a = ''completed''"
  with assms show "cancelBooking e s ref reason = (Error 400 ''Cannot cancel completed booking'', s)"
    by (simp add: cancelBooking_def)
next
  show "withinTwoHours e a =
        (\<exists>at. dateTime e (date a) (timeSlot a) = Some at \<and> now e < at \<and> at - now e < 2 * 3600000)"
    by (rule withinTwoHours_iff)
next
  assume "status a \<noteq> ''cancelled'' \<and> status a \<noteq> ''completed'' \<and> withinTwoHours e a"
  with assms show "cancelBooking e s ref reason =
          (Error 400 ''Cannot cancel booking within 2 hours of appointment time'', s)"
    by (simp add: cancelBooking_def)
next
  let ?doc = "a\<lparr>status := ''cancelled'', cancelledAt := Some (now e),
          cancellationReason := (if truthy reason then reason else cancellationReason a)\<rparr>"
  assume h: "status a \<noteq> ''cancelled'' \<and> status a \<noteq> ''completed'' \<and> \<not> withinTwoHours e a \<and> ref \<noteq> [] \<and>
      validateBooking e ?doc"
  let ?b = "?doc\<lparr>updatedAt := now e\<rparr>"
  let ?s = "s\<lparr>bookings := map (\<lambda>x. if bid x = bid a then ?b else x) (bookings s)\<rparr>"
  from find_SomeD[OF assms] have a: "a \<in> set (bookings s)" and r: "bookingReference a = ref"
    by simp_all
  have ne: "bookingReference a \<noteq> []" using h r by simp
  have nw: "\<not> withinTwoHours e a" using h by simp
  have valid: "validateBooking e ?doc" using h by simp
  have diff: "?doc \<noteq> a"
  proof
    assume "?doc = a"
    then have "status ?doc = status a" by simp
    with h show False by simp
  qed
  have sv: "save e s (Some a) ?doc = Inr (?b, ?s)"
    using save_update_ok[of ?doc a e s, OF _ _ _ _ ne valid] diff by simp
  have "cancelBooking e s ref reason = (Success 200 ''Booking cancelled successfully'' (BookingData ?b), ?s)"
    using assms h nw sv by (simp add: cancelBooking_def booking_cancel_def)
  moreover have "?b \<in> set (bookings ?s)" using replaced_member[OF a, of ?b] by simp
  ultimately show "\<exists>b' s'. cancelBooking e s ref reason =
                    (Success 200 ''Booking cancelled successfully'' (BookingData b'), s') \<and>
                 b' \<in> set (bookings s') \<and> bid b' = bid a \<and>
                 bookingReference b' = bookingReference a \<and>
                 status b' = ''cancelled'' \<and> cancelledAt b' = Some (now e) \<and>
                 cancellationReason b' = (if truthy reason then reason else cancellationReason a)"
    by (intro exI[of _ ?b] exI[of _ ?s]) simp
next
  let ?doc = "a\<lparr>status := ''cancelled'', cancelledAt := Some (now e),
          cancellationReason := (if truthy reason then reason else cancellationReason a)\<rparr>"
  assume h: "status a \<noteq> ''cancelled'' \<and> status a \<noteq> ''completed'' \<and> \<not> withinTwoHours e a \<and>
      \<not> validateBooking e ?doc"
  then have "save e s (Some a) ?doc = Inl ValidationError"
    by (simp add: save_def)
  with assms h show "cancelBooking e s ref reason = (Error 400 ''Validation Error'', s)"
    by (simp add: cancelBooking_def booking_cancel_def)
next
  assume "validateBooking e a \<and> (case reason of None \<Rightarrow> True | Some r \<Rightarrow> length r \<le> 500)"
  then show "validateBooking e
          (a\<lparr>status := ''cancelled'', cancelledAt := Some (now e),
             cancellationReason := (if truthy reason then reason else cancellationReason a)\<rparr>)"
    by (auto simp: validateBooking_def truthy_def split: option.splits)
next
  assume "reason = Some r \<and> 500 < length r"
  then show "\<not> validateBooking e
          (a\<lparr>status := ''cancelled'', cancelledAt := Some (now e),
             cancellationReason := (if truthy reason then reason else cancellationReason a)\<rparr>)"
    by (auto simp: validateBooking_def truthy_def)
qed

lemma bookingA_valid: "validateBooking exampleEnv bookingA"
  by (simp add: validateBooking_def bookingA_fields isDigit_def digitVal_def customer_valid env_fields)
     (simp add: bookingA_def)

lemma within_hour_before: "withinTwoHours envHourBefore bookingA"
  by (simp add: withinTwoHours_def envHourBefore_fields bookingA_fields)

theorem cancel_outcomes_witness:
  "cancelBooking exampleEnv store3 ''SM2025092514301'' (Some ''changed plans'') =
     (Error 400 ''Booking is already cancelled'', store3) \<and>
   cancelBooking envHourBefore store2 ''SM2025092514301'' (Some ''changed plans'') =
     (Error 400 ''Cannot cancel booking within 2 hours of appointment time'', store2) \<and>
   (\<exists>b' s'. cancelBooking exampleEnv store2 ''SM2025092514301'' (Some ''changed plans'') =
               (Success 200 ''Booking cancelled successfully'' (BookingData b'), s') \<and>
            b' \<in> set (bookings s') \<and> bid b' = 1 \<and> bookingReference b' = ''SM2025092514301'' \<and>
            status b' = ''cancelled'' \<and> cancelledAt b' = Some 1758810600000 \<and>
            cancellationReason b' = Some ''changed plans'') \<and>
   cancelBooking exampleEnv store2 ''SM2025092514301'' (Some longReason) =
     (Error 400 ''Validation Error'', store2)"
  using cancel_outcomes [OF find_A_cancelled, where e = exampleEnv and reason = "Some ''changed plans''"]
    cancel_outcomes [OF find_A, where e = envHourBefore and reason = "Some ''changed plans''"]
    cancel_outcomes [OF find_A, where e = exampleEnv and reason = "Some ''changed plans''"]
    cancel_outcomes [OF find_A, where e = exampleEnv and reason = "Some longReason" and r = longReason]
    bookingA_valid within_hour_before not_within_two_hours
  by (simp add: bookingA_fields env_fields truthy_def longReason_def)

text \<open>
  The claim as stated promises the cancellation in every case outside the two
  refusals. A confirmed booking more than two hours ahead, cancelled with a reason of 501
  characters, is not cancelled.
\<close>

theorem cancel_long_reason_rejected:
  "bookings store2 = [bookingA] \<and> bookingReference bookingA = ''SM2025092514301'' \<and>
   status bookingA = ''confirmed'' \<and> \<not> withinTwoHours exampleEnv bookingA \<and>
   length longReason = 501 \<and>
   cancelBooking exampleEnv store2 ''SM2025092514301'' (Some longReason) =
     (Error 400 ''Validation Error'', store2)"
proof -
  have "\<not> validateBooking exampleEnv
          (bookingA\<lparr>status := ''cancelled'', cancelledAt := Some 1758810600000,
                     cancellationReason := Some longReason\<rparr>)"
    by (simp add: validateBooking_def longReason_def)
  then have "save exampleEnv store2 (Some bookingA)
          (bookingA\<lparr>status := ''cancelled'', cancelledAt := Some 1758810600000,
                     cancellationReason := Some longReason\<rparr>) = Inl ValidationError"
    by (simp add: save_def)
  then show ?thesis
    by (simp add: find_A cancelBooking_def bookingA_fields not_within_two_hours booking_cancel_def
        truthy_def env_fields longReason_def store_fields)
qed

section \<open>Rescheduling\<close>










section \<open>Bulk creation of available dates\<close>

lemma bulkLoop_append:
  "bulkLoop s cr er (xs @ ys) =
     (case bulkLoop s cr er xs of ((cr1, er1), s1) \<Rightarrow> bulkLoop s1 cr1 er1 ys)"
proof (induction xs arbitrary: s cr er)
  case Nil
  show ?case by simp
next
  case (Cons x xs)
  show ?case
    by (cases "saveAvailableDate s None (newAvailableDate x)") (auto simp: Cons.IH)
qed

lemma bulkLoop_grows:
  "bulkLoop s cr er xs = ((cr', er'), s') \<Longrightarrow>
     \<exists>c2 e2. cr' = cr @ c2 \<and> er' = er @ e2 \<and> length c2 + length e2 = length xs"
proof (induction xs arbitrary: s cr er)
  case Nil
  then show ?case by simp
next
  case (Cons x xs)
  show ?case
  proof (cases "saveAvailableDate s None (newAvailableDate x)")
    case (Inl err)
    with Cons.prems have "bulkLoop s cr (er @ [(dc_date x, err)]) xs = ((cr', er'), s')" by simp
    from Cons.IH[OF this] obtain c2 e2 where
      "cr' = cr @ c2" "er' = (er @ [(dc_date x, err)]) @ e2" "length c2 + length e2 = length xs"
      by blast
    then show ?thesis by (intro exI[of _ c2] exI[of _ "(dc_date x, err) # e2"]) simp
  next
    case (Inr p)
    obtain a s1 where p: "p = (a, s1)" by (cases p)
    with Inr Cons.prems have "bulkLoop s1 (cr @ [a]) er xs = ((cr', er'), s')" by simp
    from Cons.IH[OF this] obtain c2 e2 where
      "cr' = (cr @ [a]) @ c2" "er' = er @ e2" "length c2 + length e2 = length xs"
      by blast
    then show ?thesis by (intro exI[of _ "a # c2"] exI[of _ e2]) simp
  qed
qed

lemma bulkLoop_item_reported:
  assumes "bulkLoop s [] [] dates = ((created, errors), s')" and "i < length dates"
  shows "case bulkLoop s [] [] (take i dates) of
           ((cr, er), si) \<Rightarrow>
             (case saveAvailableDate si None (newAvailableDate (dates ! i)) of
                Inr (a, sa) \<Rightarrow> a \<in> set created
              | Inl err \<Rightarrow> (dc_date (dates ! i), err) \<in> set errors)"
proof -
  obtain cr er si where pre: "bulkLoop s [] [] (take i dates) = ((cr, er), si)"
    by (metis prod.exhaust)
  have split: "dates = take i dates @ (dates ! i) # drop (Suc i) dates"
    using assms(2) by (simp add: id_take_nth_drop)
  have run: "bulkLoop si cr er ((dates ! i) # drop (Suc i) dates) = ((created, errors), s')"
    using assms(1) bulkLoop_append[of s "[]" "[]" "take i dates" "(dates ! i) # drop (Suc i) dates"]
    by (simp add: split[symmetric] pre)
  show ?thesis
  proof (cases "saveAvailableDate si None (newAvailableDate (dates ! i))")
    case (Inl err)
    with run have "bulkLoop si cr (er @ [(dc_date (dates ! i), err)]) (drop (Suc i) dates) = ((created, errors), s')"
      by simp
    from bulkLoop_grows[OF this] have "(dc_date (dates ! i), err) \<in> set errors" by auto
    with pre Inl show ?thesis by simp
  next
    case (Inr p)
    obtain a sa where p: "p = (a, sa)" by (cases p)
    with Inr run have "bulkLoop sa (cr @ [a]) er (drop (Suc i) dates) = ((created, errors), s')"
      by simp
    from bulkLoop_grows[OF this] have "a \<in> set created" by auto
    with pre Inr p show ?thesis by simp
  qed
qed

lemma save_oct1:
  "saveAvailableDate emptyStore None (newAvailableDate (entryFor ''2025-10-01'')) =
     Inr (windowOct1, storeOct1)"
  by (simp add: saveAvailableDate_def Let_def newAvailableDate_def entryFor_def emptyStore_def
      validateAvailableDate_def isDigit_def digitVal_def
      durationOrDefault_def availableDatePreSave_def toMinutes_def Number_def windowOct1_def
      storeOct1_def)

lemma save_oct1_again:
  "saveAvailableDate storeOct1 None (newAvailableDate (entryFor ''2025-10-01'')) =
     Inl (DuplicateKey [''date''])"
  by (simp add: saveAvailableDate_def Let_def newAvailableDate_def entryFor_def
      validateAvailableDate_def isDigit_def digitVal_def
      durationOrDefault_def availableDatePreSave_def toMinutes_def Number_def windowOct1_def
      storeOct1_def)

lemma loop_duplicate_in_batch:
  "bulkLoop emptyStore [] [] [entryFor ''2025-10-01'', entryFor ''2025-10-01''] =
     (([windowOct1], [(''2025-10-01'', DuplicateKey [''date''])]), storeOct1)"
proof -
  have d: "dc_date (entryFor ''2025-10-01'') = ''2025-10-01''" by (simp add: entryFor_def)
  show ?thesis by (simp add: save_oct1 save_oct1_again d)
qed

lemma duplicate_in_batch:
  "createBulkAvailableDates emptyStore [entryFor ''2025-10-01'', entryFor ''2025-10-01''] True =
     (Success 200 ''Successfully created 1 dates''
        (BulkDatesData [windowOct1] [(''2025-10-01'', DuplicateKey [''date''])]), storeOct1)"
proof -
  have e: "availableDates emptyStore = []" by (simp add: emptyStore_def)
  have t: "toString (Suc 0) = ''1''" by (simp add: toString.simps digitChar_def)
  show ?thesis
    by (simp add: createBulkAvailableDates_def Let_def e loop_duplicate_in_batch t del: bulkLoop.simps)
qed

text \<open>
  Claim C6, amended. When a date of the batch already has a window in the store, the
  whole request is answered with Conflict (status 409) and nothing is created. Otherwise
  every entry of the array is attempted, in order, on the store left by the entries
  before it, and gets exactly one outcome: the saved window is reported in \<open>created\<close>, a
  failure in \<open>errors\<close> with the date and the error, and a failure does not stop the
  entries after it. For the batch of 2025-10-01 twice on the empty store, the first entry
  is created, the second is reported in \<open>errors\<close> with the duplicate-key error, and
  \<open>created\<close> has length 1.
\<close>

theorem bulk_create_outcomes:
  "((\<exists>c \<in> set dates. \<exists>a \<in> set (availableDates s). adate a = dc_date c) \<longrightarrow>
      createBulkAvailableDates s dates skipExisting = (Error 409 ''Please select another date'', s)) \<and>
   (\<not> (\<exists>c \<in> set dates. \<exists>a \<in> set (availableDates s). adate a = dc_date c) \<longrightarrow>
      (\<exists>created errors s'.
          createBulkAvailableDates s dates skipExisting =
            (Success 200 (''Successfully created '' @ toString (length created) @ '' dates'')
               (BulkDatesData created errors), s') \<and>
          bulkLoop s [] [] dates = ((created, errors), s') \<and>
          length created + length errors = length dates \<and>
          (\<forall>i. i < length dates \<longrightarrow>
             (case bulkLoop s [] [] (take i dates) of
                ((cr, er), si) \<Rightarrow>
                  (case saveAvailableDate si None (newAvailableDate (dates ! i)) of
                     Inr (a, sa) \<Rightarrow> a \<in> set created
                   | Inl err \<Rightarrow> (dc_date (dates ! i), err) \<in> set errors))))) \<and>
   createBulkAvailableDates emptyStore [entryFor ''2025-10-01'', entryFor ''2025-10-01''] True =
     (Success 200 ''Successfully created 1 dates''
        (BulkDatesData [windowOct1] [(''2025-10-01'', DuplicateKey [''date''])]),
      storeOct1)"
proof (intro conjI impI)
  assume "\<exists>c \<in> set dates. \<exists>a \<in> set (availableDates s). adate a = dc_date c"
  then have "filter (\<lambda>a. adate a \<in> set (map dc_date dates)) (availableDates s) \<noteq> []"
    by (auto simp: filter_empty_conv)
  then show "createBulkAvailableDates s dates skipExisting = (Error 409 ''Please select another date'', s)"
    by (simp add: createBulkAvailableDates_def Let_def)
next
  assume n: "\<not> (\<exists>c \<in> set dates. \<exists>a \<in> set (availableDates s). adate a = dc_date c)"
  then have e: "filter (\<lambda>a. adate a \<in> set (map dc_date dates)) (availableDates s) = []"
    by (auto simp: filter_empty_conv)
  obtain created errors s' where run: "bulkLoop s [] [] dates = ((created, errors), s')"
    by (metis prod.exhaust)
  from bulkLoop_grows[OF run] have len: "length created + length errors = length dates" by auto
  have resp: "createBulkAvailableDates s dates skipExisting =
            (Success 200 (''Successfully created '' @ toString (length created) @ '' dates'')
               (BulkDatesData created errors), s')"
    using e run by (simp add: createBulkAvailableDates_def Let_def)
  show "\<exists>created errors s'.
          createBulkAvailableDates s dates skipExisting =
            (Success 200 (''Successfully created '' @ toString (length created) @ '' dates'')
               (BulkDatesData created errors), s') \<and>
          bulkLoop s [] [] dates = ((created, errors), s') \<and>
          length created + length errors = length dates \<and>
          (\<forall>i. i < length dates \<longrightarrow>
             (case bulkLoop s [] [] (take i dates) of
                ((cr, er), si) \<Rightarrow>
                  (case saveAvailableDate si None (newAvailableDate (dates ! i)) of
                     Inr (a, sa) \<Rightarrow> a \<in> set created
                   | Inl err \<Rightarrow> (dc_date (dates ! i), err) \<in> set errors)))"
    using resp run len bulkLoop_item_reported[OF run]
    by (intro exI[of _ created] exI[of _ errors] exI[of _ s']) blast
next
  show "createBulkAvailableDates emptyStore [entryFor ''2025-10-01'', entryFor ''2025-10-01''] True =
     (Success 200 ''Successfully created 1 dates''
        (BulkDatesData [windowOct1] [(''2025-10-01'', DuplicateKey [''date''])]),
      storeOct1)"
    by (rule duplicate_in_batch)
qed


theorem bulk_create_outcomes_witness:
  "createBulkAvailableDates store1 [entryFor ''2025-09-26'', entryFor ''2025-10-01''] False =
     (Error 409 ''Please select another date'', store1) \<and>
   (\<exists>created errors s'.
      createBulkAvailableDates emptyStore [entryFor ''2025-10-01'', entryFor ''2025-10-01''] False =
        (Success 200 (''Successfully created '' @ toString (length created) @ '' dates'')
           (BulkDatesData created errors), s') \<and>
      length created + length errors = 2)"
proof -
  have 1: "\<exists>c \<in> set [entryFor ''2025-09-26'', entryFor ''2025-10-01''].
             \<exists>a \<in> set (availableDates store1). adate a = dc_date c"
    by (simp add: store_fields window1_fields entryFor_def)
  have 2: "\<not> (\<exists>c \<in> set [entryFor ''2025-10-01'', entryFor ''2025-10-01''].
             \<exists>a \<in> set (availableDates emptyStore). adate a = dc_date c)"
    by (simp add: store_fields)
  from bulk_create_outcomes [of "[entryFor ''2025-09-26'', entryFor ''2025-10-01'']" store1 False] 1
  have a: "createBulkAvailableDates store1 [entryFor ''2025-09-26'', entryFor ''2025-10-01''] False =
     (Error 409 ''Please select another date'', store1)" by blast
  from bulk_create_outcomes [of "[entryFor ''2025-10-01'', entryFor ''2025-10-01'']" emptyStore False] 2
  obtain created errors s' where
    "createBulkAvailableDates emptyStore [entryFor ''2025-10-01'', entryFor ''2025-10-01''] False =
        (Success 200 (''Successfully created '' @ toString (length created) @ '' dates'')
           (BulkDatesData created errors), s')"
    "length created + length errors = length [entryFor ''2025-10-01'', entryFor ''2025-10-01'']"
    by blast
  then have "\<exists>created errors s'.
      createBulkAvailableDates emptyStore [entryFor ''2025-10-01'', entryFor ''2025-10-01''] False =
        (Success 200 (''Successfully created '' @ toString (length created) @ '' dates'')
           (BulkDatesData created errors), s') \<and>
      length created + length errors = 2"
    by (intro exI[of _ created] exI[of _ errors] exI[of _ s']) simp
  with a show ?thesis by blast
qed

text \<open>
  The claim as stated has every entry attempted whatever happens to the others. With
  2025-09-26 already in the store, a batch of 2025-09-26 and 2025-10-01 is refused as a
  whole, although the second entry alone would have been saved.
\<close>

theorem bulk_existing_date_aborts:
  "createBulkAvailableDates store1 [entryFor ''2025-09-26'', entryFor ''2025-10-01''] True =
     (Error 409 ''Please select another date'', store1) \<and>
   saveAvailableDate store1 None (newAvailableDate (entryFor ''2025-10-01'')) =
     Inr (windowOct1\<lparr>aid := 1\<rparr>,
          \<lparr>bookings = [], availableDates = [window1, windowOct1\<lparr>aid := 1\<rparr>], nextId = 2\<rparr>)"
proof -
  have "createBulkAvailableDates store1 [entryFor ''2025-09-26'', entryFor ''2025-10-01''] True =
     (Error 409 ''Please select another date'', store1)"
    by (simp add: createBulkAvailableDates_def Let_def store_fields window1_fields entryFor_def)
  moreover have "saveAvailableDate store1 None (newAvailableDate (entryFor ''2025-10-01'')) =
     Inr (windowOct1\<lparr>aid := 1\<rparr>,
          \<lparr>bookings = [], availableDates = [window1, windowOct1\<lparr>aid := 1\<rparr>], nextId = 2\<rparr>)"
    by (simp add: saveAvailableDate_def Let_def newAvailableDate_def entryFor_def
      validateAvailableDate_def isDigit_def digitVal_def
      durationOrDefault_def availableDatePreSave_def toMinutes_def Number_def windowOct1_def
      store_fields window1_fields)
  ultimately show ?thesis by simp
qed

end
